theory Spec2Isabelle
  imports Main "HOL-Library.Word"
begin

section \<open>Expression model\<close>

text \<open>
  Terms of the solver are hash-consed: two terms with the same operator and the same
  children are one node, so pointer equality of the C++ code is equality of the datatype
  below. Every operator the sequence rewriter inspects has a constructor of its own; an
  uninterpreted constant carries its name and sort. Sequence literals are strings.
\<close>

datatype sort = BoolS | IntS | CharS | SeqS sort | ReS sort | ArrayS sort sort

datatype expr =
    Const string sort
  | BTrue
  | BFalse
  | BEq expr expr
  | BIte expr expr expr
  | BAnd expr expr
  | BOr expr expr
  | BNot expr
  | Numeral int
  | AAdd "expr list"
  | ASub expr expr
  | AMul "expr list"
  | AGe expr expr
  | CharLit char
  | CharLe expr expr
  | ASelect expr expr
  | SeqEmpty sort
  | SeqString string
  | SeqUnit expr
  | SeqConcat expr expr
  | SeqLength expr
  | SeqExtract expr expr expr
  | SeqItos expr
  | SeqStoi expr
  | SeqInRe expr expr
  | ReEmpty sort
  | ReFullSeq sort
  | ReFullChar sort
  | ReToRe expr
  | ReConcat expr expr
  | ReUnion expr expr
  | ReInter expr expr
  | ReDiff expr expr
  | ReComplement expr
  | ReStar expr
  | RePlus expr
  | ReOpt expr
  | ReLoopLo expr nat
  | ReLoopLoHi expr nat nat
  | ReRange expr expr
  | ReReverse expr
  | ReOfPred expr
  | ReDerivative expr expr

text \<open>
  Modelled from the spec: the sort accessor of the expression model (section 6; the
  declaration plugins are not part of the sources at hand). \<open>SeqEmpty\<close>, \<open>ReEmpty\<close>,
  \<open>ReFullSeq\<close> and \<open>ReFullChar\<close> carry their own sort, as the C++ constructors take it.
\<close>

fun get_sort :: "expr \<Rightarrow> sort" where
  "get_sort (Const x s) = s"
| "get_sort BTrue = BoolS"
| "get_sort BFalse = BoolS"
| "get_sort (BEq a b) = BoolS"
| "get_sort (BIte c t e) = get_sort t"
| "get_sort (BAnd a b) = BoolS"
| "get_sort (BOr a b) = BoolS"
| "get_sort (BNot a) = BoolS"
| "get_sort (Numeral n) = IntS"
| "get_sort (AAdd xs) = IntS"
| "get_sort (ASub a b) = IntS"
| "get_sort (AMul xs) = IntS"
| "get_sort (AGe a b) = BoolS"
| "get_sort (CharLit ch) = CharS"
| "get_sort (CharLe a b) = BoolS"
| "get_sort (ASelect a i) = (case get_sort a of ArrayS d r \<Rightarrow> r | s \<Rightarrow> s)"
| "get_sort (SeqEmpty s) = s"
| "get_sort (SeqString s) = SeqS CharS"
| "get_sort (SeqUnit e) = SeqS (get_sort e)"
| "get_sort (SeqConcat a b) = get_sort a"
| "get_sort (SeqLength a) = IntS"
| "get_sort (SeqExtract a b c) = get_sort a"
| "get_sort (SeqItos a) = SeqS CharS"
| "get_sort (SeqStoi a) = IntS"
| "get_sort (SeqInRe a r) = BoolS"
| "get_sort (ReEmpty s) = s"
| "get_sort (ReFullSeq s) = s"
| "get_sort (ReFullChar s) = s"
| "get_sort (ReToRe a) = ReS (get_sort a)"
| "get_sort (ReConcat a b) = get_sort a"
| "get_sort (ReUnion a b) = get_sort a"
| "get_sort (ReInter a b) = get_sort a"
| "get_sort (ReDiff a b) = get_sort a"
| "get_sort (ReComplement a) = get_sort a"
| "get_sort (ReStar a) = get_sort a"
| "get_sort (RePlus a) = get_sort a"
| "get_sort (ReOpt a) = get_sort a"
| "get_sort (ReLoopLo a lo) = get_sort a"
| "get_sort (ReLoopLoHi a lo hi) = get_sort a"
| "get_sort (ReRange a b) = ReS (get_sort a)"
| "get_sort (ReReverse a) = get_sort a"
| "get_sort (ReOfPred p) = (case get_sort p of ArrayS d r \<Rightarrow> ReS (SeqS d) | s \<Rightarrow> ReS (SeqS s))"
| "get_sort (ReDerivative ele r) = get_sort r"

text \<open>
  Failures of the C++ code that are not results: a \<open>VERIFY\<close> that does not hold, a null
  pointer that is dereferenced, an operator applied at the wrong arity, a recursion
  that has used up its fuel, and a debug assertion of the source whose violation leaves
  the behaviour undefined.
\<close>

datatype error = VerifyFailed | NullDeref | BadApp | OutOfFuel | SAssertFailed

section \<open>Memoization cache\<close>

text \<open>
  The operator tags that the cache and the if-then-else combination use. The numeric
  values of the tags are declared outside the files verified here; the tags are taken to
  be pairwise different, \<open>OP_RE_IS_NULLABLE\<close> is the internal tag \<open>_OP_RE_IS_NULLABLE\<close>,
  and \<open>OP_OTHER\<close> stands for every tag without a constructor of its own.
\<close>

datatype decl_kind =
    OP_ITE
  | OP_RE_CONCAT
  | OP_RE_UNION
  | OP_RE_INTERSECT
  | OP_RE_DIFF
  | OP_RE_COMPLEMENT
  | OP_RE_STAR
  | OP_RE_PLUS
  | OP_RE_OPTION
  | OP_RE_REVERSE
  | OP_RE_DERIVATIVE
  | OP_RE_IS_NULLABLE
  | OP_OTHER

type_synonym op_key = "decl_kind \<times> expr option \<times> expr option \<times> expr option"

text \<open>
  Modelled from the spec: the table of \<open>op_cache\<close> (its declaration, the entry type and
  the hash table are not part of the sources at hand). An entry maps the operator tag and
  up to three operand identities to one result; a null operand is \<open>None\<close>. The table is
  an association list with one pair per key, so its length is the number of entries.
  The trail of the C++ cache only keeps the terms alive and is not modelled.
\<close>

record op_cache =
  m_table :: "(op_key \<times> expr) list"
  m_max_cache_size :: nat

text \<open>The result stored in the table under a key.\<close>

definition table_lookup :: "op_cache \<Rightarrow> op_key \<Rightarrow> expr option" where
  "table_lookup C key = map_of (m_table C) key"

text \<open>
  \<open>op_cache::find\<close> builds the entry \<open>e\<close> of its arguments with a null result, calls the
  one-argument \<open>find\<close> of the table on it, drops the value of that call, and returns the
  field \<open>e.r\<close>. Nothing assigns that field: the function returns the null pointer it put
  there, whatever the table holds. (The one-argument \<open>find\<close> of the hash table is not part
  of the sources at hand; it gives the position of the entry and leaves its argument as it
  is: \<open>pb2bv_rewriter.cpp\<close> reads an entry back with the two-argument \<open>find\<close> only.)
\<close>

definition cache_find :: "op_cache \<Rightarrow> decl_kind \<Rightarrow> expr option \<Rightarrow> expr option \<Rightarrow> expr option \<Rightarrow> expr option" where
  "cache_find C op a b c =
     (let e = ((op, a, b, c), None :: expr option);
          position = table_lookup C (fst e)
      in snd e)"

definition cache_cleanup :: "op_cache \<Rightarrow> op_cache" where
  "cache_cleanup C = (if length (m_table C) \<ge> m_max_cache_size C then C\<lparr>m_table := []\<rparr> else C)"

definition cache_insert :: "op_cache \<Rightarrow> decl_kind \<Rightarrow> expr option \<Rightarrow> expr option \<Rightarrow> expr option \<Rightarrow> expr \<Rightarrow> op_cache" where
  "cache_insert C op a b c r =
     (let C' = cache_cleanup C in
      C'\<lparr>m_table := ((op, a, b, c), r) # filter (\<lambda>e. fst e \<noteq> (op, a, b, c)) (m_table C')\<rparr>)"

definition empty_cache :: "nat \<Rightarrow> op_cache" where
  "empty_cache n = \<lparr>m_table = [], m_max_cache_size = n\<rparr>"

section \<open>Nullability\<close>

text \<open>
  The helpers \<open>mk_and\<close>, \<open>mk_or\<close> and \<open>mk_not\<close> of \<open>ast/ast_util.h\<close> are not part of the
  sources at hand; the functions below take them as parameters.
\<close>

record ast_util =
  mk_and :: "expr \<Rightarrow> expr \<Rightarrow> expr"
  mk_or :: "expr \<Rightarrow> expr \<Rightarrow> expr"
  mk_not :: "expr \<Rightarrow> expr"

text \<open>
  \<open>is_nullable_rec\<close> asks the cache for the term and computes and stores the result
  on a miss; \<open>is_nullable\<close> is the case distinction over the regex operators. The two
  operands of \<open>mk_and\<close>, \<open>mk_or\<close> and \<open>mk_ite\<close> are evaluated from left to right here
  (C++ leaves the order open); for \<open>re.diff\<close> the source evaluates the second operand first.
\<close>

fun is_nullable_rec :: "ast_util \<Rightarrow> op_cache \<Rightarrow> expr \<Rightarrow> error + (expr \<times> op_cache)"
  and is_nullable :: "ast_util \<Rightarrow> op_cache \<Rightarrow> expr \<Rightarrow> error + (expr \<times> op_cache)" where
  "is_nullable_rec U C r =
     (case cache_find C OP_RE_IS_NULLABLE (Some r) None None of
        Some v \<Rightarrow> Inr (v, C)
      | None \<Rightarrow>
         (case is_nullable U C r of
            Inl e \<Rightarrow> Inl e
          | Inr (v, C') \<Rightarrow> Inr (v, cache_insert C' OP_RE_IS_NULLABLE (Some r) None None v)))"
| "is_nullable U C (ReConcat r1 r2) =
     (case is_nullable_rec U C r1 of Inl e \<Rightarrow> Inl e | Inr (n1, C1) \<Rightarrow>
      case is_nullable_rec U C1 r2 of Inl e \<Rightarrow> Inl e | Inr (n2, C2) \<Rightarrow>
        Inr (mk_and U n1 n2, C2))"
| "is_nullable U C (ReInter r1 r2) =
     (case is_nullable_rec U C r1 of Inl e \<Rightarrow> Inl e | Inr (n1, C1) \<Rightarrow>
      case is_nullable_rec U C1 r2 of Inl e \<Rightarrow> Inl e | Inr (n2, C2) \<Rightarrow>
        Inr (mk_and U n1 n2, C2))"
| "is_nullable U C (ReUnion r1 r2) =
     (case is_nullable_rec U C r1 of Inl e \<Rightarrow> Inl e | Inr (n1, C1) \<Rightarrow>
      case is_nullable_rec U C1 r2 of Inl e \<Rightarrow> Inl e | Inr (n2, C2) \<Rightarrow>
        Inr (mk_or U n1 n2, C2))"
| "is_nullable U C (ReDiff r1 r2) =
     (case is_nullable_rec U C r2 of Inl e \<Rightarrow> Inl e | Inr (n2, C1) \<Rightarrow>
      case is_nullable_rec U C1 r1 of Inl e \<Rightarrow> Inl e | Inr (n1, C2) \<Rightarrow>
        Inr (mk_and U n1 (mk_not U n2), C2))"
| "is_nullable U C (ReStar r1) = Inr (BTrue, C)"
| "is_nullable U C (ReOpt r1) = Inr (BTrue, C)"
| "is_nullable U C (ReFullSeq s) = Inr (BTrue, C)"
| "is_nullable U C (ReLoopLo r1 lo) =
     (if lo = 0 then Inr (BTrue, C) else is_nullable_rec U C r1)"
| "is_nullable U C (ReLoopLoHi r1 lo hi) =
     (if lo = 0 then Inr (BTrue, C) else is_nullable_rec U C r1)"
| "is_nullable U C (ReFullChar s) = Inr (BFalse, C)"
| "is_nullable U C (ReEmpty s) = Inr (BFalse, C)"
| "is_nullable U C (ReOfPred p) = Inr (BFalse, C)"
| "is_nullable U C (ReRange a b) = Inr (BFalse, C)"
| "is_nullable U C (RePlus r1) = is_nullable_rec U C r1"
| "is_nullable U C (ReReverse r1) = is_nullable_rec U C r1"
| "is_nullable U C (ReComplement r1) =
     (case is_nullable_rec U C r1 of Inl e \<Rightarrow> Inl e | Inr (n1, C1) \<Rightarrow> Inr (mk_not U n1, C1))"
| "is_nullable U C (ReToRe r1) =
     (case get_sort (ReToRe r1) of
        ReS seq_sort \<Rightarrow> Inr (BEq (SeqEmpty seq_sort) r1, C)
      | _ \<Rightarrow> Inl VerifyFailed)"
| "is_nullable U C (BIte cond r1 r2) =
     (case is_nullable_rec U C r1 of Inl e \<Rightarrow> Inl e | Inr (n1, C1) \<Rightarrow>
      case is_nullable_rec U C1 r2 of Inl e \<Rightarrow> Inl e | Inr (n2, C2) \<Rightarrow>
        Inr (BIte cond n1 n2, C2))"
| "is_nullable U C r =
     (case get_sort r of
        ReS seq_sort \<Rightarrow> Inr (SeqInRe (SeqEmpty seq_sort) r, C)
      | _ \<Rightarrow> Inl VerifyFailed)"


text \<open>
  The reading of the claim about nullability, as a function of its own: structural
  recursion over the regex, with no cache. An operator outside the list is answered by
  the membership constraint of the empty sequence.
\<close>

fun seq_sort_of :: "expr \<Rightarrow> sort" where
  "seq_sort_of r = (case get_sort r of ReS s \<Rightarrow> s | s \<Rightarrow> s)"

fun nullable_spec :: "ast_util \<Rightarrow> expr \<Rightarrow> expr" where
  "nullable_spec U (ReConcat r1 r2) = mk_and U (nullable_spec U r1) (nullable_spec U r2)"
| "nullable_spec U (ReInter r1 r2) = mk_and U (nullable_spec U r1) (nullable_spec U r2)"
| "nullable_spec U (ReUnion r1 r2) = mk_or U (nullable_spec U r1) (nullable_spec U r2)"
| "nullable_spec U (ReDiff r1 r2) = mk_and U (nullable_spec U r1) (mk_not U (nullable_spec U r2))"
| "nullable_spec U (ReStar r1) = BTrue"
| "nullable_spec U (ReOpt r1) = BTrue"
| "nullable_spec U (ReFullSeq s) = BTrue"
| "nullable_spec U (ReLoopLo r1 lo) = (if lo = 0 then BTrue else nullable_spec U r1)"
| "nullable_spec U (ReLoopLoHi r1 lo hi) = (if lo = 0 then BTrue else nullable_spec U r1)"
| "nullable_spec U (ReEmpty s) = BFalse"
| "nullable_spec U (ReFullChar s) = BFalse"
| "nullable_spec U (ReRange a b) = BFalse"
| "nullable_spec U (ReOfPred p) = BFalse"
| "nullable_spec U (RePlus r1) = nullable_spec U r1"
| "nullable_spec U (ReReverse r1) = nullable_spec U r1"
| "nullable_spec U (ReComplement r1) = mk_not U (nullable_spec U r1)"
| "nullable_spec U (ReToRe s) = BEq (SeqEmpty (get_sort s)) s"
| "nullable_spec U (BIte c r1 r2) = BIte c (nullable_spec U r1) (nullable_spec U r2)"
| "nullable_spec U r = SeqInRe (SeqEmpty (seq_sort_of r)) r"

text \<open>
  The operators \<open>is_nullable\<close> has a case for, and the terms on which it cannot hit its
  \<open>VERIFY\<close>: every term it falls through on has a regex sort.
\<close>

fun recognized :: "expr \<Rightarrow> bool" where
  "recognized (ReConcat r1 r2) = True"
| "recognized (ReInter r1 r2) = True"
| "recognized (ReUnion r1 r2) = True"
| "recognized (ReDiff r1 r2) = True"
| "recognized (ReStar r1) = True"
| "recognized (ReOpt r1) = True"
| "recognized (ReFullSeq s) = True"
| "recognized (ReLoopLo r1 lo) = True"
| "recognized (ReLoopLoHi r1 lo hi) = True"
| "recognized (ReEmpty s) = True"
| "recognized (ReFullChar s) = True"
| "recognized (ReRange a b) = True"
| "recognized (ReOfPred p) = True"
| "recognized (RePlus r1) = True"
| "recognized (ReReverse r1) = True"
| "recognized (ReComplement r1) = True"
| "recognized (ReToRe s) = True"
| "recognized (BIte c r1 r2) = True"
| "recognized r = False"

fun re_sorted :: "expr \<Rightarrow> bool" where
  "re_sorted (ReConcat r1 r2) \<longleftrightarrow> re_sorted r1 \<and> re_sorted r2"
| "re_sorted (ReInter r1 r2) \<longleftrightarrow> re_sorted r1 \<and> re_sorted r2"
| "re_sorted (ReUnion r1 r2) \<longleftrightarrow> re_sorted r1 \<and> re_sorted r2"
| "re_sorted (ReDiff r1 r2) \<longleftrightarrow> re_sorted r1 \<and> re_sorted r2"
| "re_sorted (ReStar r1) \<longleftrightarrow> True"
| "re_sorted (ReOpt r1) \<longleftrightarrow> True"
| "re_sorted (ReFullSeq s) \<longleftrightarrow> True"
| "re_sorted (ReLoopLo r1 lo) \<longleftrightarrow> lo = 0 \<or> re_sorted r1"
| "re_sorted (ReLoopLoHi r1 lo hi) \<longleftrightarrow> lo = 0 \<or> re_sorted r1"
| "re_sorted (ReEmpty s) \<longleftrightarrow> True"
| "re_sorted (ReFullChar s) \<longleftrightarrow> True"
| "re_sorted (ReRange a b) \<longleftrightarrow> True"
| "re_sorted (ReOfPred p) \<longleftrightarrow> True"
| "re_sorted (RePlus r1) \<longleftrightarrow> re_sorted r1"
| "re_sorted (ReReverse r1) \<longleftrightarrow> re_sorted r1"
| "re_sorted (ReComplement r1) \<longleftrightarrow> re_sorted r1"
| "re_sorted (ReToRe s) \<longleftrightarrow> True"
| "re_sorted (BIte c r1 r2) \<longleftrightarrow> re_sorted r1 \<and> re_sorted r2"
| "re_sorted r \<longleftrightarrow> (case get_sort r of ReS s \<Rightarrow> True | _ \<Rightarrow> False)"

text \<open>A cache is sound for nullability when each of its nullability entries holds the
  value of the cache-free recursion.\<close>

definition cache_ok :: "ast_util \<Rightarrow> op_cache \<Rightarrow> bool" where
  "cache_ok U C \<longleftrightarrow>
     (\<forall>r v. table_lookup C (OP_RE_IS_NULLABLE, Some r, None, None) = Some v \<longrightarrow> v = nullable_spec U r)"

definition good :: "ast_util \<Rightarrow> expr \<Rightarrow> bool" where
  "good U r \<longleftrightarrow>
     (\<forall>C. cache_ok U C \<longrightarrow> (\<exists>C'. is_nullable U C r = Inr (nullable_spec U r, C') \<and> cache_ok U C'))"

definition good_rec :: "ast_util \<Rightarrow> expr \<Rightarrow> bool" where
  "good_rec U r \<longleftrightarrow>
     (\<forall>C. cache_ok U C \<longrightarrow> (\<exists>C'. is_nullable_rec U C r = Inr (nullable_spec U r, C') \<and> cache_ok U C'))"

text \<open>The helpers of \<open>ast_util\<close> as plain constructors, for concrete runs.\<close>

definition plain_util :: ast_util where
  "plain_util = \<lparr>mk_and = BAnd, mk_or = BOr, mk_not = BNot\<rparr>"

section \<open>Derivatives\<close>

datatype br_status = BR_FAILED | BR_DONE | BR_REWRITE1 | BR_REWRITE2 | BR_REWRITE3 | BR_REWRITE_FULL

text \<open>
  Modelled from the spec: \<open>zstring::extract\<close> and \<open>str().is_empty\<close> (the string class and
  the sequence recognizers are not part of the sources at hand). \<open>extract off len\<close> is the
  run of at most \<open>len\<close> characters from position \<open>off\<close>, clipped at the end of the
  string; the empty sequence is the empty-sequence node or the empty literal.
\<close>

definition zstring_extract :: "string \<Rightarrow> nat \<Rightarrow> nat \<Rightarrow> string" where
  "zstring_extract s off len = take len (drop off s)"

fun str_is_empty :: "expr \<Rightarrow> bool" where
  "str_is_empty (SeqEmpty s) = True"
| "str_is_empty (SeqString s) = (s = [])"
| "str_is_empty e = False"

text \<open>\<open>mk_seq_concat\<close>: the rewrite rule for concatenation, and the wrapper that builds
  the plain concatenation when no rule fires. \<open>co\<close> is the flag \<open>m_coalesce_chars\<close>.\<close>

fun mk_seq_concat_core :: "bool \<Rightarrow> expr \<Rightarrow> expr \<Rightarrow> br_status \<times> expr option" where
  "mk_seq_concat_core co a b =
     (let isc1 = (case a of SeqString s1 \<Rightarrow> co | _ \<Rightarrow> False);
          isc2 = (case b of SeqString s2 \<Rightarrow> co | _ \<Rightarrow> False)
      in
      if isc1 \<and> isc2 then
        (case (a, b) of (SeqString s1, SeqString s2) \<Rightarrow> (BR_DONE, Some (SeqString (s1 @ s2)))
         | _ \<Rightarrow> (BR_FAILED, None))
      else
        (case a of
           SeqConcat c d \<Rightarrow> (BR_REWRITE2, Some (SeqConcat c (SeqConcat d b)))
         | _ \<Rightarrow>
           if str_is_empty a then (BR_DONE, Some b)
           else if str_is_empty b then (BR_DONE, Some a)
           else
             (case (a, b) of
                (SeqString s1, SeqConcat (SeqString s2) d) \<Rightarrow>
                   if isc1 then (BR_DONE, Some (SeqConcat (SeqString (s1 @ s2)) d))
                   else (BR_FAILED, None)
              | _ \<Rightarrow> (BR_FAILED, None))))"

definition mk_seq_concat :: "bool \<Rightarrow> expr \<Rightarrow> expr \<Rightarrow> expr" where
  "mk_seq_concat co a b =
     (case mk_seq_concat_core co a b of
        (BR_FAILED, _) \<Rightarrow> SeqConcat a b
      | (_, Some r) \<Rightarrow> r
      | (_, None) \<Rightarrow> SeqConcat a b)"

fun get_head_tail :: "bool \<Rightarrow> expr \<Rightarrow> (expr \<times> expr) option" where
  "get_head_tail co (SeqUnit h) = Some (h, SeqEmpty (get_sort (SeqUnit h)))"
| "get_head_tail co (SeqString s1) =
     (if length s1 > 0 then Some (CharLit (s1 ! 0), SeqString (zstring_extract s1 1 (length s1)))
      else None)"
| "get_head_tail co (SeqConcat h t) =
     (case get_head_tail co h of
        Some (head, tail) \<Rightarrow> Some (head, mk_seq_concat co tail t)
      | None \<Rightarrow> None)"
| "get_head_tail co s = None"

definition re_and :: "expr \<Rightarrow> expr \<Rightarrow> expr" where
  "re_and cond r =
     (if cond = BTrue then r
      else if cond = BFalse then ReEmpty (get_sort r)
      else BIte cond r (ReEmpty (get_sort r)))"

definition re_predicate :: "expr \<Rightarrow> sort \<Rightarrow> expr" where
  "re_predicate cond seq_sort = re_and cond (ReToRe (SeqEmpty seq_sort))"

text \<open>
  \<open>mk_re_derivative\<close>: the two \<open>VERIFY\<close> checks on the sort of the regex, then the case
  distinction. The result is the status and the term written to \<open>result\<close>, if any.
\<close>

fun mk_re_derivative_cases ::
  "ast_util \<Rightarrow> bool \<Rightarrow> op_cache \<Rightarrow> sort \<Rightarrow> expr \<Rightarrow> expr \<Rightarrow> error + ((br_status \<times> expr option) \<times> op_cache)" where
  "mk_re_derivative_cases U co C seq_sort ele (ReConcat r1 r2) =
     (case is_nullable U C r1 of
        Inl e \<Rightarrow> Inl e
      | Inr (is_n, C') \<Rightarrow>
         (let dr1 = ReDerivative ele r1;
              dr2 = ReDerivative ele r2;
              result = ReConcat dr1 r2
          in
          if is_n = BFalse then Inr ((BR_REWRITE2, Some result), C')
          else if is_n = BTrue then Inr ((BR_REWRITE3, Some (ReUnion result dr2)), C')
          else Inr ((BR_REWRITE3, Some (BIte is_n (ReUnion result dr2) result)), C')))"
| "mk_re_derivative_cases U co C seq_sort ele (ReStar r1) =
     Inr ((BR_REWRITE2, Some (ReConcat (ReDerivative ele r1) (ReStar r1))), C)"
| "mk_re_derivative_cases U co C seq_sort ele (RePlus r1) =
     Inr ((BR_REWRITE1, Some (ReDerivative ele (ReStar r1))), C)"
| "mk_re_derivative_cases U co C seq_sort ele (ReUnion r1 r2) =
     Inr ((BR_REWRITE2, Some (ReUnion (ReDerivative ele r1) (ReDerivative ele r2))), C)"
| "mk_re_derivative_cases U co C seq_sort ele (ReInter r1 r2) =
     Inr ((BR_REWRITE2, Some (ReInter (ReDerivative ele r1) (ReDerivative ele r2))), C)"
| "mk_re_derivative_cases U co C seq_sort ele (ReDiff r1 r2) =
     Inr ((BR_REWRITE2, Some (ReDiff (ReDerivative ele r1) (ReDerivative ele r2))), C)"
| "mk_re_derivative_cases U co C seq_sort ele (BIte p r1 r2) =
     Inr ((BR_REWRITE2, Some (BIte p (ReDerivative ele r1) (ReDerivative ele r2))), C)"
| "mk_re_derivative_cases U co C seq_sort ele (ReOpt r1) =
     Inr ((BR_REWRITE1, Some (ReDerivative ele r1)), C)"
| "mk_re_derivative_cases U co C seq_sort ele (ReComplement r1) =
     Inr ((BR_REWRITE2, Some (ReComplement (ReDerivative ele r1))), C)"
| "mk_re_derivative_cases U co C seq_sort ele (ReLoopLo r1 lo) =
     Inr ((BR_REWRITE2, Some (ReConcat (ReDerivative ele r1) (ReLoopLo r1 (if lo > 0 then lo - 1 else lo)))), C)"
| "mk_re_derivative_cases U co C seq_sort ele (ReLoopLoHi r1 lo hi) =
     (if hi = 0 then Inr ((BR_DONE, Some (ReEmpty (get_sort (ReLoopLoHi r1 lo hi)))), C)
      else Inr ((BR_REWRITE2,
                 Some (ReConcat (ReDerivative ele r1)
                         (ReLoopLoHi r1 (if lo > 0 then lo - 1 else lo) (hi - 1)))), C))"
| "mk_re_derivative_cases U co C seq_sort ele (ReFullSeq s) = Inr ((BR_DONE, Some (ReFullSeq s)), C)"
| "mk_re_derivative_cases U co C seq_sort ele (ReEmpty s) = Inr ((BR_DONE, Some (ReEmpty s)), C)"
| "mk_re_derivative_cases U co C seq_sort ele (ReToRe r1) =
     (case get_head_tail co r1 of
        Some (head, tail) \<Rightarrow> Inr ((BR_REWRITE2, Some (re_and (BEq ele head) (ReToRe tail))), C)
      | None \<Rightarrow>
         if str_is_empty r1 then Inr ((BR_DONE, Some (ReEmpty (get_sort (ReToRe r1)))), C)
         else Inr ((BR_FAILED, None), C))"
| "mk_re_derivative_cases U co C seq_sort ele (ReRange r1 r2) =
     (case (r1, r2) of
        (SeqString s1, SeqString s2) \<Rightarrow>
          if length s1 = 1 \<and> length s2 = 1 then
            Inr ((BR_REWRITE3,
                  Some (re_predicate (BAnd (CharLe (CharLit (s1 ! 0)) ele) (CharLe ele (CharLit (s2 ! 0)))) seq_sort)), C)
          else Inr ((BR_DONE, Some (ReEmpty (get_sort (ReRange r1 r2)))), C)
      | (SeqUnit e1, SeqUnit e2) \<Rightarrow>
          Inr ((BR_REWRITE2, Some (re_predicate (BAnd (CharLe e1 ele) (CharLe ele e2)) seq_sort)), C)
      | _ \<Rightarrow> Inr ((BR_FAILED, None), C))"
| "mk_re_derivative_cases U co C seq_sort ele (ReFullChar s) =
     Inr ((BR_DONE, Some (ReToRe (SeqEmpty seq_sort))), C)"
| "mk_re_derivative_cases U co C seq_sort ele (ReOfPred p) =
     Inr ((BR_REWRITE2, Some (re_predicate (ASelect p ele) seq_sort)), C)"
| "mk_re_derivative_cases U co C seq_sort ele r = Inr ((BR_FAILED, None), C)"

definition mk_re_derivative ::
  "ast_util \<Rightarrow> bool \<Rightarrow> op_cache \<Rightarrow> expr \<Rightarrow> expr \<Rightarrow> error + ((br_status \<times> expr option) \<times> op_cache)" where
  "mk_re_derivative U co C ele r =
     (case get_sort r of
        ReS seq_sort \<Rightarrow>
          (case seq_sort of
             SeqS ele_sort \<Rightarrow> mk_re_derivative_cases U co C seq_sort ele r
           | _ \<Rightarrow> Inl VerifyFailed)
      | _ \<Rightarrow> Inl VerifyFailed)"

section \<open>Numerals, sequence helpers and values\<close>

text \<open>
  Modelled from the spec: the numeral parser and printer (\<open>rational(char const*)\<close> and
  \<open>rational::to_string\<close>; the numeral library is not part of the sources at hand). A
  literal is read as a decimal numeral, with a leading minus sign for a negative one, and
  printed in the same form. The functions that use the library take it as a parameter;
  \<open>decimal_lib\<close> is the instance for concrete runs.
\<close>

definition is_digit :: "char \<Rightarrow> bool" where
  "is_digit c \<longleftrightarrow> (48::nat) \<le> of_char c \<and> (of_char c :: nat) \<le> 57"

definition digit_of :: "char \<Rightarrow> int" where
  "digit_of c = int (of_char c) - 48"

definition dec_value :: "string \<Rightarrow> int" where
  "dec_value s = foldl (\<lambda>a c. if is_digit c then 10 * a + digit_of c else a) 0 s"

definition digit_char :: "nat \<Rightarrow> char" where
  "digit_char d = ''0123456789'' ! d"

function string_of_nat :: "nat \<Rightarrow> string" where
  "string_of_nat n =
     (if n < 10 then [digit_char n] else string_of_nat (n div 10) @ [digit_char (n mod 10)])"
  by pat_completeness auto
termination
  by (relation "measure (\<lambda>n. n)") auto

declare string_of_nat.simps [simp del]

record numeral_lib =
  rational_of_string :: "string \<Rightarrow> int"
  rational_to_string :: "int \<Rightarrow> string"

definition decimal_lib :: numeral_lib where
  "decimal_lib =
     \<lparr>rational_of_string = (\<lambda>s. case s of
          [] \<Rightarrow> 0
        | c # cs \<Rightarrow> if c = CHR ''-'' then - dec_value cs else dec_value (c # cs)),
      rational_to_string = (\<lambda>i. if i < 0 then CHR ''-'' # string_of_nat (nat (- i)) else string_of_nat (nat i))\<rparr>"

text \<open>
  Modelled from the spec: \<open>zstring::encode\<close> (the string class is not part of the sources
  at hand): the characters of the literal.
\<close>

definition zstring_encode :: "string \<Rightarrow> string" where
  "zstring_encode s = s"

text \<open>
  Recognizers and destructors of the sequence operators (\<open>str().is_unit(e, a)\<close> and the
  like): the test, and the operand where the test holds.
\<close>

fun is_unit :: "expr \<Rightarrow> bool" where
  "is_unit (SeqUnit u) = True"
| "is_unit e = False"

fun unit_arg :: "expr \<Rightarrow> expr" where
  "unit_arg (SeqUnit u) = u"
| "unit_arg e = e"

fun is_string :: "expr \<Rightarrow> bool" where
  "is_string (SeqString s) = True"
| "is_string e = False"

fun string_arg :: "expr \<Rightarrow> string" where
  "string_arg (SeqString s) = s"
| "string_arg e = []"

fun is_concat :: "expr \<Rightarrow> bool" where
  "is_concat (SeqConcat a b) = True"
| "is_concat e = False"

fun is_itos :: "expr \<Rightarrow> bool" where
  "is_itos (SeqItos n) = True"
| "is_itos e = False"

fun itos_arg :: "expr \<Rightarrow> expr" where
  "itos_arg (SeqItos n) = n"
| "itos_arg e = e"

fun is_const_char :: "expr \<Rightarrow> bool" where
  "is_const_char (CharLit c) = True"
| "is_const_char e = False"

fun const_char_arg :: "expr \<Rightarrow> char" where
  "const_char_arg (CharLit c) = c"
| "const_char_arg e = CHR 0x00"

text \<open>
  The helpers \<open>get_concat\<close>, \<open>get_concat_units\<close> and the n-ary \<open>mk_concat\<close> of the
  sequence utilities are not part of the sources at hand; the functions that use them
  take them as parameters. \<open>plain_seq_util\<close> is the instance for concrete runs: the
  operands of a concatenation tree from left to right without the empty ones (string
  literals split into units for \<open>get_concat_units\<close>), and the right-nested concatenation.
\<close>

record seq_util =
  get_concat :: "expr \<Rightarrow> expr list"
  get_concat_units :: "expr \<Rightarrow> expr list"
  mk_concat :: "expr list \<Rightarrow> sort \<Rightarrow> expr"

fun flat_concat :: "expr \<Rightarrow> expr list" where
  "flat_concat (SeqConcat a b) = flat_concat a @ flat_concat b"
| "flat_concat e = (if str_is_empty e then [] else [e])"

fun flat_concat_units :: "expr \<Rightarrow> expr list" where
  "flat_concat_units (SeqConcat a b) = flat_concat_units a @ flat_concat_units b"
| "flat_concat_units (SeqString s) = map (\<lambda>c. SeqUnit (CharLit c)) s"
| "flat_concat_units e = (if str_is_empty e then [] else [e])"

fun right_concat :: "expr list \<Rightarrow> sort \<Rightarrow> expr" where
  "right_concat [] s = SeqEmpty s"
| "right_concat [x] s = x"
| "right_concat (x # y # ys) s = SeqConcat x (right_concat (y # ys) s)"

definition plain_seq_util :: seq_util where
  "plain_seq_util = \<lparr>get_concat = flat_concat, get_concat_units = flat_concat_units, mk_concat = right_concat\<rparr>"

text \<open>
  Values of terms: integers, sequences, characters and booleans. \<open>stoi_value\<close> and
  \<open>itos_value\<close> are the meanings of \<open>str.to_int\<close> and \<open>int.to_str\<close> that the rewriter
  itself computes on literals (\<open>mk_str_stoi\<close>, \<open>mk_str_itos\<close>): the value of a non-empty
  digit string and \<open>-1\<close> otherwise; the decimal form of a non-negative integer and the
  empty string otherwise. Terms without an interpretation here take their value from the
  valuation \<open>V\<close>.
\<close>

definition stoi_value :: "string \<Rightarrow> int" where
  "stoi_value s = (if s = [] \<or> \<not> list_all is_digit s then - 1 else dec_value s)"

definition itos_value :: "int \<Rightarrow> string" where
  "itos_value n = (if n < 0 then [] else string_of_nat (nat n))"

datatype val = VInt int | VSeq string | VChar char | VBool bool | VOther

fun the_int :: "val \<Rightarrow> int" where
  "the_int (VInt n) = n"
| "the_int v = 0"

fun the_seq :: "val \<Rightarrow> string" where
  "the_seq (VSeq s) = s"
| "the_seq v = []"

fun the_char :: "val \<Rightarrow> char" where
  "the_char (VChar c) = c"
| "the_char v = CHR 0x00"

fun the_bool :: "val \<Rightarrow> bool" where
  "the_bool (VBool b) = b"
| "the_bool v = False"

fun eval :: "(expr \<Rightarrow> val) \<Rightarrow> expr \<Rightarrow> val" where
  "eval V (Numeral n) = VInt n"
| "eval V (AAdd xs) = VInt (sum_list (map (\<lambda>x. the_int (eval V x)) xs))"
| "eval V (AMul xs) = VInt (prod_list (map (\<lambda>x. the_int (eval V x)) xs))"
| "eval V (ASub a b) = VInt (the_int (eval V a) - the_int (eval V b))"
| "eval V (SeqLength s) = VInt (int (length (the_seq (eval V s))))"
| "eval V (SeqStoi s) = VInt (stoi_value (the_seq (eval V s)))"
| "eval V (BIte c t e) = (if the_bool (eval V c) then eval V t else eval V e)"
| "eval V (SeqEmpty s) = VSeq []"
| "eval V (SeqString s) = VSeq s"
| "eval V (SeqUnit c) = VSeq [the_char (eval V c)]"
| "eval V (SeqConcat a b) = VSeq (the_seq (eval V a) @ the_seq (eval V b))"
| "eval V (SeqItos n) = VSeq (itos_value (the_int (eval V n)))"
| "eval V (CharLit c) = VChar c"
| "eval V BTrue = VBool True"
| "eval V BFalse = VBool False"
| "eval V (BNot a) = VBool (\<not> the_bool (eval V a))"
| "eval V (BAnd a b) = VBool (the_bool (eval V a) \<and> the_bool (eval V b))"
| "eval V (BOr a b) = VBool (the_bool (eval V a) \<or> the_bool (eval V b))"
| "eval V (AGe a b) = VBool (the_int (eval V a) \<ge> the_int (eval V b))"
| "eval V (BEq a b) = VBool (eval V a = eval V b)"
| "eval V e = V e"

section \<open>String to integer\<close>

text \<open>
  Modelled from the spec: \<open>mk_is_empty\<close> of the sequence utilities, the test that a
  sequence is empty: the equality with the empty sequence of the same sort.
\<close>

definition mk_is_empty :: "expr \<Rightarrow> expr" where
  "mk_is_empty s = BEq s (SeqEmpty (get_sort s))"

definition mk_str_stoi_concat :: "seq_util \<Rightarrow> expr \<Rightarrow> br_status \<times> expr option" where
  "mk_str_stoi_concat S a =
     (let as = get_concat_units S a in
      if as = [] then (BR_DONE, Some (Numeral (- 1)))
      else if is_unit (last as) then
        (let tail = SeqStoi (last as);
             head = mk_concat S (butlast as) (get_sort a);
             stoi_head = SeqStoi head;
             result1 = BIte (AGe stoi_head (Numeral 0))
                         (AAdd [AMul [Numeral 10, stoi_head], tail])
                         (Numeral (- 1));
             result2 = BIte (AGe tail (Numeral 0)) result1 tail;
             result3 = BIte (mk_is_empty head) tail result2
         in (BR_REWRITE_FULL, Some result3))
      else (BR_FAILED, None))"

fun mk_str_stoi :: "numeral_lib \<Rightarrow> seq_util \<Rightarrow> expr \<Rightarrow> br_status \<times> expr option" where
  "mk_str_stoi N S (SeqString s) =
     (let s1 = zstring_encode s in
      if length s1 = 0 then (BR_DONE, Some (Numeral (- 1)))
      else if \<not> list_all is_digit s1 then (BR_DONE, Some (Numeral (- 1)))
      else (BR_DONE, Some (Numeral (rational_of_string N s1))))"
| "mk_str_stoi N S (SeqItos b) = (BR_DONE, Some (BIte (AGe b (Numeral 0)) b (Numeral (- 1))))"
| "mk_str_stoi N S (BIte c t e) = (BR_REWRITE_FULL, Some (BIte c (SeqStoi t) (SeqStoi e)))"
| "mk_str_stoi N S (SeqUnit (CharLit ch)) =
     (if is_digit ch then (BR_DONE, Some (Numeral (digit_of ch)))
      else (BR_DONE, Some (Numeral (- 1))))"
| "mk_str_stoi N S a = mk_str_stoi_concat S a"

text \<open>
  The digit-accumulation identity as the specification words it, and as the source
  builds it (its comment: if head is empty then tail, else if tail is negative then tail,
  else if stoi(head) is non-negative then stoi(head)*10+tail, else -1).
\<close>

definition stoi_identity_spec :: "bool \<Rightarrow> int \<Rightarrow> int \<Rightarrow> int" where
  "stoi_identity_spec head_empty h digit =
     (if head_empty then digit
      else if h \<ge> 0 then 10 * h + digit
      else if digit \<ge> 0 then digit else - 1)"

definition stoi_identity_code :: "bool \<Rightarrow> int \<Rightarrow> int \<Rightarrow> int" where
  "stoi_identity_code head_empty h digit =
     (if head_empty then digit
      else if digit \<ge> 0 then (if h \<ge> 0 then 10 * h + digit else - 1)
      else digit)"

text \<open>A valuation for concrete runs: the sequence constant \<open>x\<close> is \<open>"1"\<close>, the character
  constant \<open>c\<close> is \<open>a\<close>.\<close>

definition stoi_example_valuation :: "expr \<Rightarrow> val" where
  "stoi_example_valuation e =
     (if e = Const ''x'' (SeqS CharS) then VSeq ''1''
      else if e = Const ''c'' CharS then VChar (CHR ''a'')
      else VOther)"

section \<open>Word equations\<close>

text \<open>
  The three-valued equality oracle of the term manager and the hash of a vector of terms
  are not part of the sources at hand; the reducer takes them as parameters.
  \<open>plain_manager\<close> is the instance for concrete runs: two different character literals
  are distinct, identical terms are equal.
\<close>

record manager =
  are_distinct :: "expr \<Rightarrow> expr \<Rightarrow> bool"
  are_equal :: "expr \<Rightarrow> expr \<Rightarrow> bool"
  vector_hash :: "expr list \<Rightarrow> nat"

definition plain_manager :: manager where
  "plain_manager =
     \<lparr>are_distinct = (\<lambda>a b. is_const_char a \<and> is_const_char b \<and> a \<noteq> b),
      are_equal = (\<lambda>a b. a = b),
      vector_hash = (\<lambda>es. size_list size es)\<rparr>"

type_synonym eqs = "(expr \<times> expr) list"

text \<open>
  The working state is the two operand vectors and the accumulated equalities. A
  reduction step returns \<open>Inr None\<close> when the C++ function returns false (the callers
  discard the vectors then), \<open>Inr (Some state)\<close> when it returns true, and an error where
  the source runs into its own assertion: a unit against the empty literal.
\<close>

type_synonym eq_state = "expr list \<times> expr list \<times> eqs"

definition remove_empty_and_concats :: "seq_util \<Rightarrow> expr list \<Rightarrow> expr list" where
  "remove_empty_and_concats S es =
     (let has_concat = list_ex is_concat es;
          es' = filter (\<lambda>e. \<not> str_is_empty e) es
      in if has_concat then concat (map (get_concat S) es') else es')"

definition weight :: "expr \<Rightarrow> nat" where
  "weight e = (if is_string e then Suc (length (string_arg e)) else 1)"

definition min_len :: "string \<Rightarrow> string \<Rightarrow> nat" where
  "min_len s1 s2 = min (length s1) (length s2)"

text \<open>
  \<open>reduce_front\<close>: the vectors from \<open>head1\<close> and \<open>head2\<close> on are the two lists; advancing a
  head drops the first element, and \<open>remove_leading\<close> at the end leaves exactly these lists.
\<close>

function reduce_front :: "manager \<Rightarrow> expr list \<Rightarrow> expr list \<Rightarrow> eqs \<Rightarrow> error + eq_state option" where
  "reduce_front M [] rs eqs = Inr (Some ([], rs, eqs))"
| "reduce_front M (l0 # lt0) [] eqs = Inr (Some (l0 # lt0, [], eqs))"
| "reduce_front M (l0 # lt0) (r0 # rt0) eqs =
     (let sw = is_unit r0 \<and> is_string l0;
          l = (if sw then r0 else l0); r = (if sw then l0 else r0);
          lt = (if sw then rt0 else lt0); rt = (if sw then lt0 else rt0)
      in
      if l = r then reduce_front M lt rt eqs
      else if is_unit l \<and> is_unit r then
        (if are_distinct M (unit_arg l) (unit_arg r) then Inr None
         else reduce_front M lt rt (eqs @ [(unit_arg l, unit_arg r)]))
      else if is_unit l \<and> is_string r then
        (let s = string_arg r in
         if length s = 0 then Inl SAssertFailed
         else if length s = 1 then reduce_front M lt rt (eqs @ [(CharLit (s ! 0), unit_arg l)])
         else reduce_front M lt (SeqString (zstring_extract s 1 (length s - 1)) # rt)
                (eqs @ [(CharLit (s ! 0), unit_arg l)]))
      else if is_string l \<and> is_string r then
        (let s1 = string_arg l; s2 = string_arg r; min_l = min_len s1 s2 in
         if list_ex (\<lambda>i. s1 ! i \<noteq> s2 ! i) [0..<min_l] then Inr None
         else reduce_front M
                (if min_l = length s1 then lt
                 else SeqString (zstring_extract s1 min_l (length s1 - min_l)) # lt)
                (if min_l = length s2 then rt
                 else SeqString (zstring_extract s2 min_l (length s2 - min_l)) # rt)
                eqs)
      else Inr (Some (l # lt, r # rt, eqs)))"
  by pat_completeness auto
termination
proof (relation "measure (\<lambda>(M, ls, rs, eqs). sum_list (map weight ls) + sum_list (map weight rs))", goal_cases)
  case 1
  show ?case by simp
next
  case 2
  then show ?case by (auto simp: weight_def split: if_splits)
next
  case 3
  then show ?case by (auto simp: weight_def split: if_splits)
next
  case 4
  then show ?case by (auto simp: weight_def split: if_splits)
next
  case 5
  then show ?case by (auto simp: weight_def zstring_extract_def split: if_splits)
next
  case (6 M l0 lt0 r0 rt0 eqs sw l r lt rt s1 s2 min_l)
  have strl: "is_string l" and strr: "is_string r" and ne: "l \<noteq> r"
    using 6 by simp_all
  have l: "l = SeqString s1"
    using strl \<open>s1 = string_arg l\<close> by (cases l) simp_all
  have r: "r = SeqString s2"
    using strr \<open>s2 = string_arg r\<close> by (cases r) simp_all
  have nsw: "\<not> sw"
  proof
    assume sw
    then have "l = r0" "is_unit r0"
      using \<open>l = (if sw then r0 else l0)\<close> \<open>sw = (is_unit r0 \<and> is_string l0)\<close> by simp_all
    with l show False by simp
  qed
  have same: "l0 = SeqString s1" "r0 = SeqString s2" "lt = lt0" "rt = rt0"
    using nsw l r \<open>l = (if sw then r0 else l0)\<close> \<open>r = (if sw then l0 else r0)\<close>
      \<open>lt = (if sw then rt0 else lt0)\<close> \<open>rt = (if sw then lt0 else rt0)\<close> by simp_all
  have m: "min_l = min (length s1) (length s2)"
    using \<open>min_l = min_len s1 s2\<close> by (simp add: min_len_def)
  have w: "weight (SeqString s1) = Suc (length s1)" "weight (SeqString s2) = Suc (length s2)"
    "\<And>t. weight (SeqString t) = Suc (length t)"
    by (simp_all add: weight_def)
  show ?case
    unfolding same
    by (cases "length s1 \<le> length s2") (auto simp add: m w zstring_extract_def min_def)
qed

text \<open>
  \<open>reduce_back\<close> works from the last elements; \<open>reduce_back_rev\<close> is the loop on the two
  vectors held back to front.
\<close>

function reduce_back_rev :: "manager \<Rightarrow> expr list \<Rightarrow> expr list \<Rightarrow> eqs \<Rightarrow> error + eq_state option" where
  "reduce_back_rev M [] rs eqs = Inr (Some ([], rs, eqs))"
| "reduce_back_rev M (l0 # lt0) [] eqs = Inr (Some (l0 # lt0, [], eqs))"
| "reduce_back_rev M (l0 # lt0) (r0 # rt0) eqs =
     (let sw = is_unit r0 \<and> is_string l0;
          l = (if sw then r0 else l0); r = (if sw then l0 else r0);
          lt = (if sw then rt0 else lt0); rt = (if sw then lt0 else rt0)
      in
      if l = r then reduce_back_rev M lt rt eqs
      else if is_unit l \<and> is_unit r then
        (if are_distinct M (unit_arg l) (unit_arg r) then Inr None
         else reduce_back_rev M lt rt (eqs @ [(unit_arg l, unit_arg r)]))
      else if is_unit l \<and> is_string r then
        (let s = string_arg r in
         if length s = 0 then Inl SAssertFailed
         else if length s = 1 then
           reduce_back_rev M lt rt (eqs @ [(CharLit (s ! (length s - 1)), unit_arg l)])
         else reduce_back_rev M lt (SeqString (zstring_extract s 0 (length s - 1)) # rt)
                (eqs @ [(CharLit (s ! (length s - 1)), unit_arg l)]))
      else if is_string l \<and> is_string r then
        (let s1 = string_arg l; s2 = string_arg r; min_l = min_len s1 s2 in
         if list_ex (\<lambda>i. s1 ! (length s1 - i - 1) \<noteq> s2 ! (length s2 - i - 1)) [0..<min_l] then Inr None
         else reduce_back_rev M
                (if min_l < length s1 then SeqString (zstring_extract s1 0 (length s1 - min_l)) # lt
                 else lt)
                (if min_l < length s2 then SeqString (zstring_extract s2 0 (length s2 - min_l)) # rt
                 else rt)
                eqs)
      else Inr (Some (l # lt, r # rt, eqs)))"
  by pat_completeness auto
termination
proof (relation "measure (\<lambda>(M, ls, rs, eqs). sum_list (map weight ls) + sum_list (map weight rs))", goal_cases)
  case 1
  show ?case by simp
next
  case 2
  then show ?case by (auto simp: weight_def split: if_splits)
next
  case 3
  then show ?case by (auto simp: weight_def split: if_splits)
next
  case 4
  then show ?case by (auto simp: weight_def split: if_splits)
next
  case 5
  then show ?case by (auto simp: weight_def zstring_extract_def split: if_splits)
next
  case (6 M l0 lt0 r0 rt0 eqs sw l r lt rt s1 s2 min_l)
  have strl: "is_string l" and strr: "is_string r" and ne: "l \<noteq> r"
    using 6 by simp_all
  have l: "l = SeqString s1"
    using strl \<open>s1 = string_arg l\<close> by (cases l) simp_all
  have r: "r = SeqString s2"
    using strr \<open>s2 = string_arg r\<close> by (cases r) simp_all
  have nsw: "\<not> sw"
  proof
    assume sw
    then have "l = r0" "is_unit r0"
      using \<open>l = (if sw then r0 else l0)\<close> \<open>sw = (is_unit r0 \<and> is_string l0)\<close> by simp_all
    with l show False by simp
  qed
  have same: "l0 = SeqString s1" "r0 = SeqString s2" "lt = lt0" "rt = rt0"
    using nsw l r \<open>l = (if sw then r0 else l0)\<close> \<open>r = (if sw then l0 else r0)\<close>
      \<open>lt = (if sw then rt0 else lt0)\<close> \<open>rt = (if sw then lt0 else rt0)\<close> by simp_all
  have m: "min_l = min (length s1) (length s2)"
    using \<open>min_l = min_len s1 s2\<close> by (simp add: min_len_def)
  have w: "weight (SeqString s1) = Suc (length s1)" "weight (SeqString s2) = Suc (length s2)"
    "\<And>t. weight (SeqString t) = Suc (length t)"
    by (simp_all add: weight_def)
  show ?case
    unfolding same
    by (cases "length s1 \<le> length s2") (auto simp add: m w zstring_extract_def min_def)
qed

definition reduce_back :: "manager \<Rightarrow> expr list \<Rightarrow> expr list \<Rightarrow> eqs \<Rightarrow> error + eq_state option" where
  "reduce_back M ls rs eqs =
     (case reduce_back_rev M (rev ls) (rev rs) eqs of
        Inl e \<Rightarrow> Inl e
      | Inr None \<Rightarrow> Inr None
      | Inr (Some (ls', rs', eqs')) \<Rightarrow> Inr (Some (rev ls', rev rs', eqs')))"

text \<open>\<open>is_string\<close> on a vector: the concatenation of its literals and constant-character
  units, if it has nothing else.\<close>

fun is_string_vec :: "expr list \<Rightarrow> string \<Rightarrow> string option" where
  "is_string_vec [] s = Some s"
| "is_string_vec (e # es) s =
     (if is_string e then is_string_vec es (s @ string_arg e)
      else if is_unit e \<and> is_const_char (unit_arg e) then
        is_string_vec es (s @ [const_char_arg (unit_arg e)])
      else None)"

text \<open>\<open>reduce_itos\<close> returns true on every path; the result is the state it leaves.\<close>

definition reduce_itos :: "numeral_lib \<Rightarrow> expr list \<Rightarrow> expr list \<Rightarrow> eqs \<Rightarrow> eq_state option" where
  "reduce_itos N ls rs eqs =
     (if length ls = 1 \<and> is_itos (ls ! 0) \<and> is_string_vec rs [] \<noteq> None then
        (let s1 = zstring_encode (the (is_string_vec rs []));
             r = rational_of_string N s1
         in if s1 = rational_to_string N r then
              Some ([], [], eqs @ [(itos_arg (ls ! 0), Numeral r)])
            else Some (ls, rs, eqs))
      else Some (ls, rs, eqs))"

fun min_length :: "expr list \<Rightarrow> bool \<times> nat" where
  "min_length [] = (True, 0)"
| "min_length (e # es) =
     (let (bounded, len) = min_length es in
      if is_unit e then (bounded, Suc len)
      else if str_is_empty e then (bounded, len)
      else if is_string e then (bounded, length (string_arg e) + len)
      else (False, len))"

text \<open>\<open>set_empty\<close>: \<open>None\<close> when the C++ function returns false. \<open>emp\<close> is the empty
  sequence built at the first symbolic element and used for the later ones.\<close>

fun set_empty_loop :: "expr list \<Rightarrow> bool \<Rightarrow> expr option \<Rightarrow> eqs \<Rightarrow> eqs option" where
  "set_empty_loop [] all emp eqs = Some eqs"
| "set_empty_loop (e # es) all emp eqs =
     (if is_unit e then (if all then None else set_empty_loop es all emp eqs)
      else if str_is_empty e then set_empty_loop es all emp eqs
      else if is_string e then
        (if length (string_arg e) = 0 then set_empty_loop es all emp eqs
         else if all then None
         else set_empty_loop es all emp eqs)
      else
        (let emp' = (case emp of Some x \<Rightarrow> x | None \<Rightarrow> SeqEmpty (get_sort e)) in
         set_empty_loop es all (Some emp') (eqs @ [(emp', e)])))"

definition set_empty :: "expr list \<Rightarrow> bool \<Rightarrow> eqs \<Rightarrow> eqs option" where
  "set_empty es all eqs = set_empty_loop es all None eqs"

definition concat_non_empty :: "seq_util \<Rightarrow> expr list \<Rightarrow> error + expr" where
  "concat_non_empty S es =
     (case es of
        [] \<Rightarrow> Inl SAssertFailed
      | e # es' \<Rightarrow> Inr (mk_concat S (filter (\<lambda>x. is_unit x \<or> is_string x) es) (get_sort e)))"

definition reduce_by_length_eq :: "seq_util \<Rightarrow> expr list \<Rightarrow> expr list \<Rightarrow> eqs \<Rightarrow> error + eq_state option" where
  "reduce_by_length_eq S ls rs eqs =
     (case concat_non_empty S ls of
        Inl e \<Rightarrow> Inl e
      | Inr cl \<Rightarrow>
         (case concat_non_empty S rs of
            Inl e \<Rightarrow> Inl e
          | Inr cr \<Rightarrow> Inr (Some ([], [], eqs @ [(cl, cr)]))))"

definition reduce_by_length :: "seq_util \<Rightarrow> expr list \<Rightarrow> expr list \<Rightarrow> eqs \<Rightarrow> error + eq_state option" where
  "reduce_by_length S ls rs eqs =
     (if ls = [] \<and> rs = [] then Inr (Some (ls, rs, eqs))
      else
        (let (bounded1, len1) = min_length ls;
             (bounded2, len2) = min_length rs
         in
         if bounded1 \<and> len1 < len2 then Inr None
         else if bounded2 \<and> len2 < len1 then Inr None
         else if bounded1 \<and> len1 = len2 \<and> len1 > 0 then
           (case set_empty rs False eqs of
              None \<Rightarrow> Inr None
            | Some eqs' \<Rightarrow> reduce_by_length_eq S ls rs eqs')
         else if bounded2 \<and> len1 = len2 \<and> len1 > 0 then
           (case set_empty ls False eqs of
              None \<Rightarrow> Inr None
            | Some eqs' \<Rightarrow> reduce_by_length_eq S ls rs eqs')
         else Inr (Some (ls, rs, eqs))))"

text \<open>
  \<open>non_overlap\<close> on two literals and on two vectors of units. \<open>can_overlap\<close> is the lambda
  of the source: it walks the positions \<open>start1 .. end1 - 1\<close>.
\<close>

definition can_overlap_str :: "string \<Rightarrow> string \<Rightarrow> nat \<Rightarrow> nat \<Rightarrow> nat \<Rightarrow> bool" where
  "can_overlap_str s1 s2 start1 end1 start2 = list_all (\<lambda>i. s1 ! i = s2 ! (start2 + i)) [start1..<end1]"

definition non_overlap_str :: "string \<Rightarrow> string \<Rightarrow> bool" where
  "non_overlap_str a b =
     (let s1 = (if length a > length b then b else a);
          s2 = (if length a > length b then a else b);
          sz1 = length s1; sz2 = length s2
      in
      if list_ex (\<lambda>i. can_overlap_str s1 s2 i sz1 0) [1..<sz1] then False
      else if list_ex (\<lambda>j. can_overlap_str s1 s2 0 sz1 j) [0..<sz2 - sz1] then False
      else if list_ex (\<lambda>j. can_overlap_str s1 s2 0 (sz2 - j) j) [sz2 - sz1..<sz2] then False
      else True)"

fun can_overlap_loop :: "manager \<Rightarrow> expr list \<Rightarrow> expr list \<Rightarrow> nat \<Rightarrow> nat list \<Rightarrow> bool" where
  "can_overlap_loop M p1 p2 start2 [] = True"
| "can_overlap_loop M p1 p2 start2 (i # is) =
     (if are_distinct M (p1 ! i) (p2 ! (start2 + i)) then False
      else if \<not> are_equal M (p1 ! i) (p2 ! (start2 + i)) then True
      else can_overlap_loop M p1 p2 start2 is)"

definition can_overlap :: "manager \<Rightarrow> expr list \<Rightarrow> expr list \<Rightarrow> nat \<Rightarrow> nat \<Rightarrow> nat \<Rightarrow> bool" where
  "can_overlap M p1 p2 start1 end1 start2 = can_overlap_loop M p1 p2 start2 [start1..<end1]"

definition non_overlap :: "manager \<Rightarrow> expr list \<Rightarrow> expr list \<Rightarrow> bool" where
  "non_overlap M a b =
     (let p1 = (if length a > length b then b else a);
          p2 = (if length a > length b then a else b);
          sz1 = length p1; sz2 = length p2
      in
      if sz1 = 0 \<or> sz2 = 0 then False
      else if sz1 = 1 \<and> sz2 = 1 \<and> is_string (p1 ! 0) \<and> is_string (p2 ! 0) then
        non_overlap_str (string_arg (p1 ! 0)) (string_arg (p2 ! 0))
      else if \<not> list_all is_unit p1 then False
      else if \<not> list_all is_unit p2 then False
      else if list_ex (\<lambda>i. can_overlap M p1 p2 i sz1 0) [1..<sz1] then False
      else if list_ex (\<lambda>j. can_overlap M p1 p2 0 sz1 j) [0..<sz2 - sz1] then False
      else if list_ex (\<lambda>j. can_overlap M p1 p2 0 (sz2 - j) j) [sz2 - sz1..<sz2] then False
      else True)"

fun reduce_non_overlap_loop :: "manager \<Rightarrow> expr list \<Rightarrow> expr list \<Rightarrow> expr list \<Rightarrow> bool" where
  "reduce_non_overlap_loop M rs [] pattern =
     (if pattern \<noteq> [] \<and> non_overlap M pattern rs then False else True)"
| "reduce_non_overlap_loop M rs (x # xs) pattern =
     (if is_unit x then reduce_non_overlap_loop M rs xs (pattern @ [x])
      else if pattern \<noteq> [] then
        (if non_overlap M pattern rs then False else reduce_non_overlap_loop M rs xs [])
      else reduce_non_overlap_loop M rs xs pattern)"

definition reduce_non_overlap :: "manager \<Rightarrow> expr list \<Rightarrow> expr list \<Rightarrow> eqs \<Rightarrow> bool" where
  "reduce_non_overlap M ls rs eqs =
     (if \<not> list_all is_unit rs then True else reduce_non_overlap_loop M rs ls [])"

text \<open>
  \<open>reduce_subsequence\<close>: \<open>rpos\<close> is the set of matched positions of the longer side. The
  first loop looks, for each element of the shorter side, for the first free position
  that holds the same term or, for a unit, another unit; the second loop keeps the
  matched elements and sets the others to the empty sequence.
\<close>

fun find_pos :: "expr \<Rightarrow> expr list \<Rightarrow> nat list \<Rightarrow> nat \<Rightarrow> nat option" where
  "find_pos x [] rpos j = None"
| "find_pos x (y # ys) rpos j =
     (if j \<notin> set rpos \<and> (x = y \<or> (is_unit x \<and> is_unit y)) then Some j
      else find_pos x ys rpos (Suc j))"

fun match_all :: "expr list \<Rightarrow> expr list \<Rightarrow> nat list \<Rightarrow> nat list option" where
  "match_all [] rs rpos = Some rpos"
| "match_all (x # xs) rs rpos =
     (case find_pos x rs rpos 0 of
        None \<Rightarrow> None
      | Some j \<Rightarrow> match_all xs rs (j # rpos))"

fun keep_matched :: "expr list \<Rightarrow> nat \<Rightarrow> nat list \<Rightarrow> expr list \<Rightarrow> eqs \<Rightarrow> (expr list \<times> eqs) option" where
  "keep_matched [] i rpos kept eqs = Some (kept, eqs)"
| "keep_matched (y # ys) i rpos kept eqs =
     (if i \<in> set rpos then keep_matched ys (Suc i) rpos (kept @ [y]) eqs
      else
        (case set_empty [y] True eqs of
           None \<Rightarrow> None
         | Some eqs' \<Rightarrow> keep_matched ys (Suc i) rpos kept eqs'))"

definition reduce_subsequence :: "seq_util \<Rightarrow> expr list \<Rightarrow> expr list \<Rightarrow> eqs \<Rightarrow> eq_state option" where
  "reduce_subsequence S ls0 rs0 eqs =
     (let ls = (if length ls0 > length rs0 then rs0 else ls0);
          rs = (if length ls0 > length rs0 then ls0 else rs0)
      in
      if length ls = length rs then Some (ls, rs, eqs)
      else if ls = [] \<and> length rs = 1 then Some (ls, rs, eqs)
      else
        (case match_all ls rs [] of
           None \<Rightarrow> Some (ls, rs, eqs)
         | Some rpos \<Rightarrow>
            (case keep_matched rs 0 rpos [] eqs of
               None \<Rightarrow> None
             | Some (kept, eqs') \<Rightarrow>
                if length kept = length rs then Some (ls, rs, eqs')
                else if ls \<noteq> [] then
                  Some ([], [], eqs' @ [(mk_concat S ls (get_sort (ls ! 0)),
                                         mk_concat S kept (get_sort (ls ! 0)))])
                else Some (ls, kept, eqs'))))"

text \<open>
  \<open>reduce_eq\<close> on two operand vectors: the chain of reductions, each run only if the ones
  before returned true. The result holds the two vectors, the equalities and the flag
  \<open>change\<close>.
\<close>

definition and_then :: "error + 'a option \<Rightarrow> ('a \<Rightarrow> error + 'b option) \<Rightarrow> error + 'b option" where
  "and_then x f = (case x of Inl e \<Rightarrow> Inl e | Inr None \<Rightarrow> Inr None | Inr (Some v) \<Rightarrow> f v)"

definition reduce_eq ::
  "numeral_lib \<Rightarrow> manager \<Rightarrow> seq_util \<Rightarrow> expr list \<Rightarrow> expr list \<Rightarrow> eqs
     \<Rightarrow> error + (expr list \<times> expr list \<times> eqs \<times> bool) option" where
  "reduce_eq N M S ls0 rs0 eqs0 =
     (let hash_l = vector_hash M ls0;
          hash_r = vector_hash M rs0;
          sz_eqs = length eqs0
      in
      and_then (reduce_back M (remove_empty_and_concats S ls0) (remove_empty_and_concats S rs0) eqs0)
        (\<lambda>(ls1, rs1, eqs1).
      and_then (reduce_front M ls1 rs1 eqs1)
        (\<lambda>(ls2, rs2, eqs2).
      and_then (Inr (reduce_itos N ls2 rs2 eqs2))
        (\<lambda>(ls3, rs3, eqs3).
      and_then (Inr (reduce_itos N rs3 ls3 eqs3))
        (\<lambda>(rs4, ls4, eqs4).
      and_then (reduce_by_length S ls4 rs4 eqs4)
        (\<lambda>(ls5, rs5, eqs5).
      and_then (Inr (reduce_subsequence S ls5 rs5 eqs5))
        (\<lambda>(ls6, rs6, eqs6).
      if \<not> reduce_non_overlap M ls6 rs6 eqs6 then Inr None
      else if \<not> reduce_non_overlap M rs6 ls6 eqs6 then Inr None
      else Inr (Some (ls6, rs6, eqs6,
                      hash_l \<noteq> vector_hash M ls6 \<or> hash_r \<noteq> vector_hash M rs6
                        \<or> length eqs6 \<noteq> sz_eqs)))))))))"

text \<open>\<open>mk_str_itos\<close>, the rewrite of \<open>int.to.str\<close> on a numeral.\<close>

fun mk_str_itos :: "numeral_lib \<Rightarrow> expr \<Rightarrow> br_status \<times> expr option" where
  "mk_str_itos N (Numeral r) =
     (if \<not> r < 0 then (BR_DONE, Some (SeqString (rational_to_string N r)))
      else (BR_DONE, Some (SeqString [])))"
| "mk_str_itos N a = (BR_FAILED, None)"

text \<open>A valuation for concrete runs: the integer constant \<open>n\<close> is \<open>-5\<close>.\<close>

definition itos_example_valuation :: "expr \<Rightarrow> val" where
  "itos_example_valuation e = (if e = Const ''n'' IntS then VInt (- 5) else VOther)"

section \<open>Regex to automaton\<close>

text \<open>
  The labels of transitions: a character, a range, a predicate over one character
  variable, or a negated label.
\<close>

datatype sym_expr =
    Sym_char expr
  | Sym_range expr expr
  | Sym_pred expr sort
  | Sym_not sym_expr












section \<open>Sub-sequence extraction\<close>

datatype sign = sign_zero | sign_pos | sign_neg








text \<open>\<open>sign_is_determined\<close>: \<open>None\<close> when the C++ function returns false; the two loops
  over the arguments of a sum and of a product carry the sign found so far.\<close>

fun sign_is_determined :: "expr \<Rightarrow> sign option"
  and sign_add_loop :: "expr list \<Rightarrow> sign \<Rightarrow> sign option"
  and sign_mul_loop :: "expr list \<Rightarrow> sign \<Rightarrow> sign option" where
  "sign_is_determined (AAdd xs) = sign_add_loop xs sign_zero"
| "sign_is_determined (AMul xs) = sign_mul_loop xs sign_zero"
| "sign_is_determined (SeqLength a) = Some sign_pos"
| "sign_is_determined (Numeral r) =
     Some (if r > 0 then sign_pos else if r < 0 then sign_neg else sign_zero)"
| "sign_is_determined e = None"
| "sign_add_loop [] s = Some s"
| "sign_add_loop (arg # args) s =
     (case sign_is_determined arg of
        None \<Rightarrow> None
      | Some s1 \<Rightarrow>
         if s = sign_zero then sign_add_loop args s1
         else if s1 = sign_zero then sign_add_loop args s
         else if s1 \<noteq> s then None
         else sign_add_loop args s)"
| "sign_mul_loop [] s = Some s"
| "sign_mul_loop (arg # args) s =
     (case sign_is_determined arg of
        None \<Rightarrow> None
      | Some s1 \<Rightarrow>
         if s1 = sign_zero then Some sign_zero
         else if s = sign_zero then sign_mul_loop args s1
         else if s \<noteq> s1 then sign_mul_loop args sign_neg
         else sign_mul_loop args sign_pos)"

fun get_lengths :: "expr \<Rightarrow> expr list \<Rightarrow> int \<Rightarrow> (expr list \<times> int) option"
  and get_lengths_args :: "expr list \<Rightarrow> expr list \<Rightarrow> int \<Rightarrow> (expr list \<times> int) option" where
  "get_lengths (AAdd xs) lens pos = get_lengths_args xs lens pos"
| "get_lengths (SeqLength arg) lens pos = Some (lens @ [arg], pos)"
| "get_lengths (Numeral pos1) lens pos = Some (lens, pos + pos1)"
| "get_lengths e lens pos = None"
| "get_lengths_args [] lens pos = Some (lens, pos)"
| "get_lengths_args (arg1 # args) lens pos =
     (case get_lengths arg1 lens pos of
        None \<Rightarrow> None
      | Some (lens', pos') \<Rightarrow> get_lengths_args args lens' pos')"










section \<open>If-then-else canonical form\<close>

fun is_ite :: "expr \<Rightarrow> bool" where
  "is_ite (BIte c t e) = True"
| "is_ite r = False"

fun ite_cond :: "expr \<Rightarrow> expr" where
  "ite_cond (BIte c t e) = c"
| "ite_cond r = r"

fun ite_then :: "expr \<Rightarrow> expr" where
  "ite_then (BIte c t e) = t"
| "ite_then r = r"

fun ite_else :: "expr \<Rightarrow> expr" where
  "ite_else (BIte c t e) = e"
| "ite_else r = r"

text \<open>
  Modelled from the spec: the operator tag of a term and the generic constructor
  \<open>mk_app\<close> of the term manager (section 6; the term manager is not part of the sources
  at hand). Only the operators that \<open>combine_ites\<close> and \<open>lift_ites\<close> build through
  \<open>mk_app\<close> have a tag of their own; an application of another tag, or at another arity,
  is an error.
\<close>

fun get_decl_kind :: "expr \<Rightarrow> decl_kind" where
  "get_decl_kind (BIte c t e) = OP_ITE"
| "get_decl_kind (ReConcat a b) = OP_RE_CONCAT"
| "get_decl_kind (ReUnion a b) = OP_RE_UNION"
| "get_decl_kind (ReInter a b) = OP_RE_INTERSECT"
| "get_decl_kind (ReDiff a b) = OP_RE_DIFF"
| "get_decl_kind (ReComplement a) = OP_RE_COMPLEMENT"
| "get_decl_kind (ReStar a) = OP_RE_STAR"
| "get_decl_kind (RePlus a) = OP_RE_PLUS"
| "get_decl_kind (ReOpt a) = OP_RE_OPTION"
| "get_decl_kind (ReReverse a) = OP_RE_REVERSE"
| "get_decl_kind (ReDerivative ele a) = OP_RE_DERIVATIVE"
| "get_decl_kind r = OP_OTHER"

fun mk_app1 :: "decl_kind \<Rightarrow> expr \<Rightarrow> error + expr" where
  "mk_app1 OP_RE_COMPLEMENT a = Inr (ReComplement a)"
| "mk_app1 OP_RE_STAR a = Inr (ReStar a)"
| "mk_app1 OP_RE_PLUS a = Inr (RePlus a)"
| "mk_app1 OP_RE_OPTION a = Inr (ReOpt a)"
| "mk_app1 OP_RE_REVERSE a = Inr (ReReverse a)"
| "mk_app1 k a = Inl BadApp"

fun mk_app2 :: "decl_kind \<Rightarrow> expr \<Rightarrow> expr \<Rightarrow> error + expr" where
  "mk_app2 OP_RE_CONCAT a b = Inr (ReConcat a b)"
| "mk_app2 OP_RE_UNION a b = Inr (ReUnion a b)"
| "mk_app2 OP_RE_INTERSECT a b = Inr (ReInter a b)"
| "mk_app2 OP_RE_DIFF a b = Inr (ReDiff a b)"
| "mk_app2 OP_RE_DERIVATIVE a b = Inr (ReDerivative a b)"
| "mk_app2 k a b = Inl BadApp"

text \<open>
  \<open>combine_ites\<close>. After a miss in the cache the case distinction of the source selects
  what to do: fail, return a term built directly (cases 1e and 4), make one recursive call
  (1b, 1d), or make two recursive calls and combine their results under the condition of
  the inner if-then-else (1a, 1c, 2, 3). \<open>combine_plan\<close> is that case distinction;
  \<open>combine_ites\<close> runs the selected calls in the order of the source, threading the cache,
  and stores the result. The identifier of a term, \<open>get_id\<close>, is a parameter. With the tag
  \<open>OP_ITE\<close> and a null condition the source dereferences the null pointer.
  The recursion is not structural (the third call runs on results), so it carries fuel:
  the number of nested calls allowed.
\<close>

type_synonym combine_args = "decl_kind \<times> expr \<times> expr \<times> expr option"

datatype plan =
    P_fail error
  | P_done expr
  | P_one combine_args
  | P_two combine_args combine_args expr

definition combine_plan :: "(expr \<Rightarrow> nat) \<Rightarrow> decl_kind \<Rightarrow> expr \<Rightarrow> expr \<Rightarrow> expr option \<Rightarrow> plan" where
  "combine_plan get_id k a b cond =
     (if k = OP_ITE then
        (case cond of
           None \<Rightarrow> P_fail NullDeref
         | Some c \<Rightarrow>
            if is_ite a \<and> get_id c < get_id (ite_cond a) then
              P_two (k, ite_then a, b, cond) (k, ite_else a, b, cond) (ite_cond a)
            else if is_ite a \<and> c = ite_cond a then
              P_one (k, ite_then a, b, cond)
            else if is_ite b \<and> get_id c < get_id (ite_cond b) then
              P_two (k, a, ite_then b, cond) (k, a, ite_else b, cond) (ite_cond b)
            else if is_ite b \<and> c = ite_cond b then
              P_one (k, a, ite_else b, cond)
            else P_done (BIte c a b))
      else if is_ite a then
        P_two (k, ite_then a, b, None) (k, ite_else a, b, None) (ite_cond a)
      else if is_ite b then
        P_two (k, a, ite_then b, None) (k, a, ite_else b, None) (ite_cond b)
      else
        (case mk_app2 k a b of Inl e \<Rightarrow> P_fail e | Inr r \<Rightarrow> P_done r))"

fun combine_ites ::
  "(expr \<Rightarrow> nat) \<Rightarrow> nat \<Rightarrow> op_cache \<Rightarrow> decl_kind \<Rightarrow> expr \<Rightarrow> expr \<Rightarrow> expr option \<Rightarrow> error + (expr \<times> op_cache)" where
  "combine_ites get_id 0 C k a b cond = Inl OutOfFuel"
| "combine_ites get_id (Suc n) C k a b cond =
     (case cache_find C k (Some a) (Some b) cond of
        Some r \<Rightarrow> Inr (r, C)
      | None \<Rightarrow>
         (case
            (case combine_plan get_id k a b cond of
               P_fail e \<Rightarrow> Inl e
             | P_done r \<Rightarrow> Inr (r, C)
             | P_one (k1, a1, b1, c1) \<Rightarrow> combine_ites get_id n C k1 a1 b1 c1
             | P_two (k1, a1, b1, c1) (k2, a2, b2, c2) acond \<Rightarrow>
                (case combine_ites get_id n C k1 a1 b1 c1 of
                   Inl e \<Rightarrow> Inl e
                 | Inr (result1, C1) \<Rightarrow>
                    (case combine_ites get_id n C1 k2 a2 b2 c2 of
                       Inl e \<Rightarrow> Inl e
                     | Inr (result2, C2) \<Rightarrow>
                        combine_ites get_id n C2 OP_ITE result1 result2 (Some acond))))
          of
            Inl e \<Rightarrow> Inl e
          | Inr (result, C') \<Rightarrow> Inr (result, cache_insert C' k (Some a) (Some b) cond result)))"

text \<open>
  \<open>lift_ites\<close>: structural recursion over the regex; \<open>n\<close> is the fuel handed to each call
  of \<open>combine_ites\<close>. The results of the recursive calls are \<open>result1\<close> and \<open>result2\<close>; the
  source builds its result from \<open>r1\<close> and \<open>r2\<close> except in the two loop cases.
  \<open>lu\<close> and \<open>li\<close> are the flags \<open>lift_over_union\<close> and \<open>lift_over_inter\<close>.
\<close>

fun lift_ites ::
  "(expr \<Rightarrow> nat) \<Rightarrow> nat \<Rightarrow> op_cache \<Rightarrow> expr \<Rightarrow> bool \<Rightarrow> bool \<Rightarrow> error + (expr \<times> op_cache)" where
  "lift_ites get_id n C (ReUnion r1 r2) lu li =
     (if \<not> lu then
        (case lift_ites get_id n C r1 lu li of
           Inl e \<Rightarrow> Inl e
         | Inr (result1, C1) \<Rightarrow>
            (case lift_ites get_id n C1 r2 lu li of
               Inl e \<Rightarrow> Inl e
             | Inr (result2, C2) \<Rightarrow>
                (case mk_app2 (get_decl_kind (ReUnion r1 r2)) r1 r2 of
                   Inl e \<Rightarrow> Inl e
                 | Inr result \<Rightarrow> Inr (result, C2))))
      else
        (case lift_ites get_id n C r1 True True of
           Inl e \<Rightarrow> Inl e
         | Inr (result1, C1) \<Rightarrow>
            (case lift_ites get_id n C1 r2 True True of
               Inl e \<Rightarrow> Inl e
             | Inr (result2, C2) \<Rightarrow>
                combine_ites get_id n C2 (get_decl_kind (ReUnion r1 r2)) r1 r2 None)))"
| "lift_ites get_id n C (ReInter r1 r2) lu li =
     (if \<not> li then
        (case lift_ites get_id n C r1 lu li of
           Inl e \<Rightarrow> Inl e
         | Inr (result1, C1) \<Rightarrow>
            (case lift_ites get_id n C1 r2 lu li of
               Inl e \<Rightarrow> Inl e
             | Inr (result2, C2) \<Rightarrow>
                (case mk_app2 (get_decl_kind (ReInter r1 r2)) r1 r2 of
                   Inl e \<Rightarrow> Inl e
                 | Inr result \<Rightarrow> Inr (result, C2))))
      else
        (case lift_ites get_id n C r1 True True of
           Inl e \<Rightarrow> Inl e
         | Inr (result1, C1) \<Rightarrow>
            (case lift_ites get_id n C1 r2 True True of
               Inl e \<Rightarrow> Inl e
             | Inr (result2, C2) \<Rightarrow>
                combine_ites get_id n C2 (get_decl_kind (ReInter r1 r2)) r1 r2 None)))"
| "lift_ites get_id n C (BIte cond r1 r2) lu li =
     (case lift_ites get_id n C r1 True True of
        Inl e \<Rightarrow> Inl e
      | Inr (result1, C1) \<Rightarrow>
         (case lift_ites get_id n C1 r2 True True of
            Inl e \<Rightarrow> Inl e
          | Inr (result2, C2) \<Rightarrow>
             combine_ites get_id n C2 (get_decl_kind (BIte cond r1 r2)) r1 r2 (Some cond)))"
| "lift_ites get_id n C (ReConcat r1 r2) lu li =
     (case lift_ites get_id n C r1 True True of
        Inl e \<Rightarrow> Inl e
      | Inr (result1, C1) \<Rightarrow>
         (case lift_ites get_id n C1 r2 True True of
            Inl e \<Rightarrow> Inl e
          | Inr (result2, C2) \<Rightarrow>
             combine_ites get_id n C2 (get_decl_kind (ReConcat r1 r2)) r1 r2 None))"
| "lift_ites get_id n C (ReDiff r1 r2) lu li =
     (case lift_ites get_id n C r1 True True of
        Inl e \<Rightarrow> Inl e
      | Inr (result1, C1) \<Rightarrow>
         (case lift_ites get_id n C1 r2 True True of
            Inl e \<Rightarrow> Inl e
          | Inr (result2, C2) \<Rightarrow>
             combine_ites get_id n C2 (get_decl_kind (ReDiff r1 r2)) r1 r2 None))"
| "lift_ites get_id n C (ReStar r1) lu li =
     (case lift_ites get_id n C r1 True True of
        Inl e \<Rightarrow> Inl e
      | Inr (result1, C1) \<Rightarrow>
         (case mk_app1 (get_decl_kind (ReStar r1)) r1 of Inl e \<Rightarrow> Inl e | Inr result \<Rightarrow> Inr (result, C1)))"
| "lift_ites get_id n C (RePlus r1) lu li =
     (case lift_ites get_id n C r1 True True of
        Inl e \<Rightarrow> Inl e
      | Inr (result1, C1) \<Rightarrow>
         (case mk_app1 (get_decl_kind (RePlus r1)) r1 of Inl e \<Rightarrow> Inl e | Inr result \<Rightarrow> Inr (result, C1)))"
| "lift_ites get_id n C (ReOpt r1) lu li =
     (case lift_ites get_id n C r1 True True of
        Inl e \<Rightarrow> Inl e
      | Inr (result1, C1) \<Rightarrow>
         (case mk_app1 (get_decl_kind (ReOpt r1)) r1 of Inl e \<Rightarrow> Inl e | Inr result \<Rightarrow> Inr (result, C1)))"
| "lift_ites get_id n C (ReComplement r1) lu li =
     (case lift_ites get_id n C r1 True True of
        Inl e \<Rightarrow> Inl e
      | Inr (result1, C1) \<Rightarrow>
         (case mk_app1 (get_decl_kind (ReComplement r1)) r1 of Inl e \<Rightarrow> Inl e | Inr result \<Rightarrow> Inr (result, C1)))"
| "lift_ites get_id n C (ReReverse r1) lu li =
     (case lift_ites get_id n C r1 True True of
        Inl e \<Rightarrow> Inl e
      | Inr (result1, C1) \<Rightarrow>
         (case mk_app1 (get_decl_kind (ReReverse r1)) r1 of Inl e \<Rightarrow> Inl e | Inr result \<Rightarrow> Inr (result, C1)))"
| "lift_ites get_id n C (ReDerivative ele r1) lu li =
     (case lift_ites get_id n C r1 True True of
        Inl e \<Rightarrow> Inl e
      | Inr (result1, C1) \<Rightarrow>
         (case mk_app2 (get_decl_kind (ReDerivative ele r1)) ele r1 of
            Inl e \<Rightarrow> Inl e
          | Inr result \<Rightarrow> Inr (result, C1)))"
| "lift_ites get_id n C (ReLoopLo r1 lo) lu li =
     (case lift_ites get_id n C r1 True True of
        Inl e \<Rightarrow> Inl e
      | Inr (result1, C1) \<Rightarrow> Inr (ReLoopLo result1 lo, C1))"
| "lift_ites get_id n C (ReLoopLoHi r1 lo hi) lu li =
     (case lift_ites get_id n C r1 True True of
        Inl e \<Rightarrow> Inl e
      | Inr (result1, C1) \<Rightarrow> Inr (ReLoopLoHi result1 lo hi, C1))"
| "lift_ites get_id n C r lu li = Inr (r, C)"

text \<open>
  BDD form, as the comment above \<open>combine_ites\<close> defines it: the if-then-elses are pushed
  outwards, above every other regex operator, and sorted by the identifier of their
  condition, from the largest on the outside to the smallest on the inside, so that no
  nested condition occurs twice.
\<close>

fun ite_free :: "expr \<Rightarrow> bool" where
  "ite_free (BIte c t e) = False"
| "ite_free (ReConcat a b) = (ite_free a \<and> ite_free b)"
| "ite_free (ReUnion a b) = (ite_free a \<and> ite_free b)"
| "ite_free (ReInter a b) = (ite_free a \<and> ite_free b)"
| "ite_free (ReDiff a b) = (ite_free a \<and> ite_free b)"
| "ite_free (ReComplement a) = ite_free a"
| "ite_free (ReStar a) = ite_free a"
| "ite_free (RePlus a) = ite_free a"
| "ite_free (ReOpt a) = ite_free a"
| "ite_free (ReReverse a) = ite_free a"
| "ite_free (ReLoopLo a lo) = ite_free a"
| "ite_free (ReLoopLoHi a lo hi) = ite_free a"
| "ite_free (ReDerivative ele a) = ite_free a"
| "ite_free r = True"

fun bdd_below :: "(expr \<Rightarrow> nat) \<Rightarrow> nat option \<Rightarrow> expr \<Rightarrow> bool" where
  "bdd_below get_id bound (BIte c t e) =
     ((case bound of None \<Rightarrow> True | Some i \<Rightarrow> get_id c < i)
      \<and> bdd_below get_id (Some (get_id c)) t \<and> bdd_below get_id (Some (get_id c)) e)"
| "bdd_below get_id bound r = ite_free r"

definition is_bdd_form :: "(expr \<Rightarrow> nat) \<Rightarrow> expr \<Rightarrow> bool" where
  "is_bdd_form get_id r = bdd_below get_id None r"

definition example_id :: "expr \<Rightarrow> nat" where
  "example_id e = size e"

section \<open>Properties of nullability and derivatives\<close>

lemma map_of_filter_key:
  "map_of (filter (\<lambda>e. fst e \<noteq> k) xs) k' = (if k' = k then None else map_of xs k')"
  by (induction xs) auto

lemma cache_find_miss [simp]: "cache_find C op a b c = None"
  by (simp add: cache_find_def)

lemma table_lookup_cleanup:
  "table_lookup (cache_cleanup C) key = Some v \<Longrightarrow> table_lookup C key = Some v"
  by (simp add: table_lookup_def cache_cleanup_def split: if_splits)

lemma table_lookup_insert:
  "table_lookup (cache_insert C op a b c r) key =
     (if key = (op, a, b, c) then Some r else table_lookup (cache_cleanup C) key)"
  by (simp add: table_lookup_def cache_insert_def Let_def map_of_filter_key)

lemma table_lookup_empty [simp]: "table_lookup (empty_cache n) key = None"
  by (simp add: table_lookup_def empty_cache_def)

lemma cache_ok_empty [simp]: "cache_ok U (empty_cache n)"
  by (simp add: cache_ok_def)

lemma cache_ok_insert:
  "cache_ok U C \<Longrightarrow> cache_ok U (cache_insert C OP_RE_IS_NULLABLE (Some r) None None (nullable_spec U r))"
  unfolding cache_ok_def
  by (auto simp: table_lookup_insert dest: table_lookup_cleanup split: if_splits)

lemma good_imp_good_rec: "good U r \<Longrightarrow> good_rec U r"
  unfolding good_def good_rec_def
proof (intro allI impI)
  fix C assume g: "\<forall>C. cache_ok U C \<longrightarrow> (\<exists>C'. is_nullable U C r = Inr (nullable_spec U r, C') \<and> cache_ok U C')"
    and ok: "cache_ok U C"
  from g ok obtain C1 where "is_nullable U C r = Inr (nullable_spec U r, C1)" "cache_ok U C1" by blast
  then show "\<exists>C'. is_nullable_rec U C r = Inr (nullable_spec U r, C') \<and> cache_ok U C'"
    by (simp add: cache_ok_insert)
qed

lemma good_binary:
  assumes "good_rec U r1" "good_rec U r2" "cache_ok U C"
  obtains C1 C2 where "is_nullable_rec U C r1 = Inr (nullable_spec U r1, C1)"
    "is_nullable_rec U C1 r2 = Inr (nullable_spec U r2, C2)" "cache_ok U C2"
  using assms unfolding good_rec_def by blast

lemma good_unary:
  assumes "good_rec U r1" "cache_ok U C"
  obtains C1 where "is_nullable_rec U C r1 = Inr (nullable_spec U r1, C1)" "cache_ok U C1"
  using assms unfolding good_rec_def by blast

lemma re_sorted_good: "re_sorted r \<Longrightarrow> good U r"
proof (induction r)
  case (ReConcat r1 r2)
  then have g: "good_rec U r1" "good_rec U r2" by (simp_all add: good_imp_good_rec)
  show ?case unfolding good_def
  proof (intro allI impI)
    fix C assume "cache_ok U C"
    with g obtain C1 C2 where "is_nullable_rec U C r1 = Inr (nullable_spec U r1, C1)"
      "is_nullable_rec U C1 r2 = Inr (nullable_spec U r2, C2)" "cache_ok U C2"
      by (rule good_binary)
    then show "\<exists>C'. is_nullable U C (ReConcat r1 r2) = Inr (nullable_spec U (ReConcat r1 r2), C') \<and> cache_ok U C'"
      by simp
  qed
next
  case (ReInter r1 r2)
  then have g: "good_rec U r1" "good_rec U r2" by (simp_all add: good_imp_good_rec)
  show ?case unfolding good_def
  proof (intro allI impI)
    fix C assume "cache_ok U C"
    with g obtain C1 C2 where "is_nullable_rec U C r1 = Inr (nullable_spec U r1, C1)"
      "is_nullable_rec U C1 r2 = Inr (nullable_spec U r2, C2)" "cache_ok U C2"
      by (rule good_binary)
    then show "\<exists>C'. is_nullable U C (ReInter r1 r2) = Inr (nullable_spec U (ReInter r1 r2), C') \<and> cache_ok U C'"
      by simp
  qed
next
  case (ReUnion r1 r2)
  then have g: "good_rec U r1" "good_rec U r2" by (simp_all add: good_imp_good_rec)
  show ?case unfolding good_def
  proof (intro allI impI)
    fix C assume "cache_ok U C"
    with g obtain C1 C2 where "is_nullable_rec U C r1 = Inr (nullable_spec U r1, C1)"
      "is_nullable_rec U C1 r2 = Inr (nullable_spec U r2, C2)" "cache_ok U C2"
      by (rule good_binary)
    then show "\<exists>C'. is_nullable U C (ReUnion r1 r2) = Inr (nullable_spec U (ReUnion r1 r2), C') \<and> cache_ok U C'"
      by simp
  qed
next
  case (ReDiff r1 r2)
  then have g: "good_rec U r2" "good_rec U r1" by (simp_all add: good_imp_good_rec)
  show ?case unfolding good_def
  proof (intro allI impI)
    fix C assume "cache_ok U C"
    with g obtain C1 C2 where "is_nullable_rec U C r2 = Inr (nullable_spec U r2, C1)"
      "is_nullable_rec U C1 r1 = Inr (nullable_spec U r1, C2)" "cache_ok U C2"
      by (rule good_binary)
    then show "\<exists>C'. is_nullable U C (ReDiff r1 r2) = Inr (nullable_spec U (ReDiff r1 r2), C') \<and> cache_ok U C'"
      by simp
  qed
next
  case (BIte c r1 r2)
  then have g: "good_rec U r1" "good_rec U r2" by (simp_all add: good_imp_good_rec)
  show ?case unfolding good_def
  proof (intro allI impI)
    fix C assume "cache_ok U C"
    with g obtain C1 C2 where "is_nullable_rec U C r1 = Inr (nullable_spec U r1, C1)"
      "is_nullable_rec U C1 r2 = Inr (nullable_spec U r2, C2)" "cache_ok U C2"
      by (rule good_binary)
    then show "\<exists>C'. is_nullable U C (BIte c r1 r2) = Inr (nullable_spec U (BIte c r1 r2), C') \<and> cache_ok U C'"
      by simp
  qed
next
  case (ReComplement r1)
  then have g: "good_rec U r1" by (simp add: good_imp_good_rec)
  show ?case unfolding good_def
  proof (intro allI impI)
    fix C assume "cache_ok U C"
    with g obtain C1 where "is_nullable_rec U C r1 = Inr (nullable_spec U r1, C1)" "cache_ok U C1"
      by (rule good_unary)
    then show "\<exists>C'. is_nullable U C (ReComplement r1) = Inr (nullable_spec U (ReComplement r1), C') \<and> cache_ok U C'"
      by simp
  qed
next
  case (RePlus r1)
  then have "good_rec U r1" by (simp add: good_imp_good_rec)
  then show ?case by (simp add: good_def good_rec_def)
next
  case (ReReverse r1)
  then have "good_rec U r1" by (simp add: good_imp_good_rec)
  then show ?case by (simp add: good_def good_rec_def)
next
  case (ReLoopLo r1 lo)
  then have "lo \<noteq> 0 \<Longrightarrow> good_rec U r1" by (simp add: good_imp_good_rec)
  then show ?case by (cases "lo = 0") (simp_all add: good_def good_rec_def)
next
  case (ReLoopLoHi r1 lo hi)
  then have "lo \<noteq> 0 \<Longrightarrow> good_rec U r1" by (simp add: good_imp_good_rec)
  then show ?case by (cases "lo = 0") (simp_all add: good_def good_rec_def)
qed (simp_all add: good_def split: sort.splits)

text \<open>
  C4. On a sound cache (the empty one, for instance), \<open>is_nullable\<close> returns what the
  structural reading says: the conjunction of the operands' nullabilities for concat and
  intersection, their disjunction for union, \<open>nullable r1 \<and> \<not> nullable r2\<close> for diff, the
  literal true for star, optional, full-sequence and loops with lower bound 0, the literal
  false for empty, full-character, range and predicate, the child's nullability for plus,
  loops with a positive lower bound and reverse, its negation for complement, and the
  equality of the operand with the empty sequence for literal-to-regex; and it leaves the
  cache sound.
\<close>

theorem is_nullable_refines_spec:
  "cache_ok U C \<Longrightarrow> re_sorted r \<Longrightarrow>
     \<exists>C'. is_nullable U C r = Inr (nullable_spec U r, C') \<and> cache_ok U C'"
  using re_sorted_good [of r U] by (simp add: good_def)

theorem is_nullable_refines_spec_witness:
  "\<exists>C'. is_nullable plain_util (empty_cache 8)
           (ReConcat (ReStar (ReFullChar (ReS (SeqS CharS))))
              (ReDiff (ReLoopLo (ReToRe (SeqString ''ab'')) 2) (ReComplement (ReEmpty (ReS (SeqS CharS))))))
         = Inr (BAnd BTrue (BAnd (BEq (SeqEmpty (SeqS CharS)) (SeqString ''ab'')) (BNot (BNot BFalse))), C')
       \<and> cache_ok plain_util C'"
  using is_nullable_refines_spec [of plain_util "empty_cache 8"
      "ReConcat (ReStar (ReFullChar (ReS (SeqS CharS))))
         (ReDiff (ReLoopLo (ReToRe (SeqString ''ab'')) 2) (ReComplement (ReEmpty (ReS (SeqS CharS)))))"]
  by (simp add: plain_util_def)

text \<open>
  C10. On a term of regex sort whose head operator is none of the recognized ones (an
  uninterpreted regex constant, a derivative application), \<open>is_nullable\<close> does not fail:
  it returns the membership constraint of the empty sequence in that term, and leaves the
  cache as it is.
\<close>

theorem is_nullable_unrecognized:
  "\<not> recognized r \<Longrightarrow> get_sort r = ReS seq_sort \<Longrightarrow>
     is_nullable U C r = Inr (SeqInRe (SeqEmpty seq_sort) r, C)"
  by (cases r) simp_all

theorem is_nullable_unrecognized_witness:
  "\<not> recognized (ReDerivative (Const ''c'' CharS) (Const ''R'' (ReS (SeqS CharS))))
   \<and> get_sort (ReDerivative (Const ''c'' CharS) (Const ''R'' (ReS (SeqS CharS)))) = ReS (SeqS CharS)
   \<and> is_nullable plain_util (empty_cache 8) (ReDerivative (Const ''c'' CharS) (Const ''R'' (ReS (SeqS CharS))))
       = Inr (SeqInRe (SeqEmpty (SeqS CharS)) (ReDerivative (Const ''c'' CharS) (Const ''R'' (ReS (SeqS CharS)))),
              empty_cache 8)"
  using is_nullable_unrecognized [of "ReDerivative (Const ''c'' CharS) (Const ''R'' (ReS (SeqS CharS)))"
      "SeqS CharS" plain_util "empty_cache 8"]
  by simp

text \<open>
  C3. On \<open>concat r1 r2\<close> of a regex sort, \<open>mk_re_derivative\<close> returns \<open>d(ele,r1)\<cdot>r2\<close> when
  \<open>is_nullable r1\<close> is the literal false, the union of \<open>d(ele,r1)\<cdot>r2\<close> and \<open>d(ele,r2)\<close> when
  it is the literal true, and the if-then-else of the two on \<open>is_nullable r1\<close> otherwise.
\<close>

theorem mk_re_derivative_concat:
  "get_sort (ReConcat r1 r2) = ReS (SeqS ele_sort) \<Longrightarrow> is_nullable U C r1 = Inr (is_n, C') \<Longrightarrow>
   mk_re_derivative U co C ele (ReConcat r1 r2) =
     Inr (if is_n = BFalse then (BR_REWRITE2, Some (ReConcat (ReDerivative ele r1) r2))
          else if is_n = BTrue then
            (BR_REWRITE3, Some (ReUnion (ReConcat (ReDerivative ele r1) r2) (ReDerivative ele r2)))
          else
            (BR_REWRITE3,
             Some (BIte is_n (ReUnion (ReConcat (ReDerivative ele r1) r2) (ReDerivative ele r2))
                     (ReConcat (ReDerivative ele r1) r2))),
          C')"
  by (simp add: mk_re_derivative_def Let_def)

theorem mk_re_derivative_concat_witness:
  "get_sort (ReConcat (ReToRe (Const ''x'' (SeqS CharS))) (ReFullSeq (ReS (SeqS CharS)))) = ReS (SeqS CharS)
   \<and> is_nullable plain_util (empty_cache 8) (ReToRe (Const ''x'' (SeqS CharS)))
       = Inr (BEq (SeqEmpty (SeqS CharS)) (Const ''x'' (SeqS CharS)), empty_cache 8)
   \<and> mk_re_derivative plain_util True (empty_cache 8) (Const ''c'' CharS)
        (ReConcat (ReToRe (Const ''x'' (SeqS CharS))) (ReFullSeq (ReS (SeqS CharS))))
       = Inr ((BR_REWRITE3,
               Some (BIte (BEq (SeqEmpty (SeqS CharS)) (Const ''x'' (SeqS CharS)))
                      (ReUnion
                         (ReConcat (ReDerivative (Const ''c'' CharS) (ReToRe (Const ''x'' (SeqS CharS))))
                            (ReFullSeq (ReS (SeqS CharS))))
                         (ReDerivative (Const ''c'' CharS) (ReFullSeq (ReS (SeqS CharS)))))
                      (ReConcat (ReDerivative (Const ''c'' CharS) (ReToRe (Const ''x'' (SeqS CharS))))
                         (ReFullSeq (ReS (SeqS CharS)))))),
              empty_cache 8)"
  using mk_re_derivative_concat [of "ReToRe (Const ''x'' (SeqS CharS))" "ReFullSeq (ReS (SeqS CharS))" CharS
      plain_util "empty_cache 8" "BEq (SeqEmpty (SeqS CharS)) (Const ''x'' (SeqS CharS))" "empty_cache 8"
      True "Const ''c'' CharS"]
  by simp

section \<open>Properties of string to integer\<close>

lemma dec_value_snoc: "dec_value (s @ [c]) = (if is_digit c then 10 * dec_value s + digit_of c else dec_value s)"
  by (simp add: dec_value_def)

lemma dec_value_nonneg: "0 \<le> dec_value s"
proof (induction s rule: rev_induct)
  case Nil
  show ?case by (simp add: dec_value_def)
next
  case (snoc c s)
  then show ?case by (auto simp: dec_value_snoc digit_of_def is_digit_def)
qed

lemma stoi_value_snoc:
  "stoi_value (hs @ [c]) = stoi_identity_code (hs = []) (stoi_value hs) (stoi_value [c])"
  using dec_value_nonneg [of hs]
  by (auto simp: stoi_value_def stoi_identity_code_def dec_value_snoc dec_value_def digit_of_def is_digit_def)

lemma mk_str_stoi_concat_term:
  assumes "get_concat_units S a = as" "as \<noteq> []" "is_unit (last as)"
  shows "mk_str_stoi_concat S a =
     (BR_REWRITE_FULL,
      Some (BIte (mk_is_empty (mk_concat S (butlast as) (get_sort a))) (SeqStoi (last as))
             (BIte (AGe (SeqStoi (last as)) (Numeral 0))
                (BIte (AGe (SeqStoi (mk_concat S (butlast as) (get_sort a))) (Numeral 0))
                   (AAdd [AMul [Numeral 10, SeqStoi (mk_concat S (butlast as) (get_sort a))], SeqStoi (last as)])
                   (Numeral (- 1)))
                (SeqStoi (last as)))))"
  using assms by (simp add: mk_str_stoi_concat_def Let_def)

lemma eval_code_term:
  "eval V (BIte (mk_is_empty hd0) (SeqStoi u0)
             (BIte (AGe (SeqStoi u0) (Numeral 0))
                (BIte (AGe (SeqStoi hd0) (Numeral 0))
                   (AAdd [AMul [Numeral 10, SeqStoi hd0], SeqStoi u0])
                   (Numeral (- 1)))
                (SeqStoi u0)))
   = VInt (stoi_identity_code (eval V hd0 = VSeq []) (stoi_value (the_seq (eval V hd0))) (stoi_value (the_seq (eval V u0))))"
  by (simp add: mk_is_empty_def stoi_identity_code_def)

text \<open>
  C8, as amended. When the argument of \<open>str.to_int\<close> is a concatenation whose list of
  units is not empty and ends in a unit, \<open>mk_str_stoi\<close> returns the term
  \<open>ite(head = "", digit, ite(digit \<ge> 0, ite(stoi(head) \<ge> 0, 10\<cdot>stoi(head) + digit, -1), digit))\<close>
  with \<open>digit = stoi(unit)\<close>; when head and unit denote the strings \<open>hs\<close> and \<open>[c]\<close>, the
  value of that term is \<open>stoi\<close> of \<open>hs @ [c]\<close>.
\<close>

theorem mk_str_stoi_concat_unit:
  assumes "get_concat_units S (SeqConcat x y) = as" and "as \<noteq> []" and "is_unit (last as)"
    and "eval V (mk_concat S (butlast as) (get_sort (SeqConcat x y))) = VSeq hs"
    and "eval V (last as) = VSeq [c]"
  shows "\<exists>t. mk_str_stoi N S (SeqConcat x y) = (BR_REWRITE_FULL, Some t)
     \<and> t = BIte (mk_is_empty (mk_concat S (butlast as) (get_sort (SeqConcat x y)))) (SeqStoi (last as))
             (BIte (AGe (SeqStoi (last as)) (Numeral 0))
                (BIte (AGe (SeqStoi (mk_concat S (butlast as) (get_sort (SeqConcat x y)))) (Numeral 0))
                   (AAdd [AMul [Numeral 10, SeqStoi (mk_concat S (butlast as) (get_sort (SeqConcat x y)))],
                          SeqStoi (last as)])
                   (Numeral (- 1)))
                (SeqStoi (last as)))
     \<and> eval V t = VInt (stoi_identity_code (hs = []) (stoi_value hs) (stoi_value [c]))
     \<and> eval V t = VInt (stoi_value (hs @ [c]))"
proof -
  let ?h = "mk_concat S (butlast as) (get_sort (SeqConcat x y))"
  let ?t = "BIte (mk_is_empty ?h) (SeqStoi (last as))
             (BIte (AGe (SeqStoi (last as)) (Numeral 0))
                (BIte (AGe (SeqStoi ?h) (Numeral 0))
                   (AAdd [AMul [Numeral 10, SeqStoi ?h], SeqStoi (last as)])
                   (Numeral (- 1)))
                (SeqStoi (last as)))"
  have run: "mk_str_stoi N S (SeqConcat x y) = (BR_REWRITE_FULL, Some ?t)"
    using mk_str_stoi_concat_term [OF assms(1-3)] by simp
  have "eval V ?t = VInt (stoi_identity_code (eval V ?h = VSeq []) (stoi_value (the_seq (eval V ?h)))
                            (stoi_value (the_seq (eval V (last as)))))"
    by (rule eval_code_term)
  then have val: "eval V ?t = VInt (stoi_identity_code (hs = []) (stoi_value hs) (stoi_value [c]))"
    using assms(4,5) by simp
  then have "eval V ?t = VInt (stoi_value (hs @ [c]))"
    by (simp only: stoi_value_snoc)
  with run val show ?thesis by blast
qed

theorem mk_str_stoi_concat_unit_witness:
  "\<exists>t. mk_str_stoi decimal_lib plain_seq_util
          (SeqConcat (Const ''x'' (SeqS CharS)) (SeqUnit (Const ''c'' CharS))) = (BR_REWRITE_FULL, Some t)
     \<and> eval stoi_example_valuation t = VInt (stoi_value (''1'' @ [CHR ''a'']))"
proof -
  let ?x = "Const ''x'' (SeqS CharS)" and ?u = "SeqUnit (Const ''c'' CharS)"
  have 1: "get_concat_units plain_seq_util (SeqConcat ?x ?u) = [?x, ?u]"
    by (simp add: plain_seq_util_def)
  have 2: "[?x, ?u] \<noteq> []" by simp
  have 3: "is_unit (last [?x, ?u])" by simp
  have 4: "eval stoi_example_valuation
             (mk_concat plain_seq_util (butlast [?x, ?u]) (get_sort (SeqConcat ?x ?u))) = VSeq ''1''"
    by (simp add: plain_seq_util_def stoi_example_valuation_def)
  have 5: "eval stoi_example_valuation (last [?x, ?u]) = VSeq [CHR ''a'']"
    by (simp add: stoi_example_valuation_def)
  from mk_str_stoi_concat_unit [OF 1 2 3 4 5, of decimal_lib] show ?thesis by blast
qed

text \<open>
  The identity as the specification words it is another function: for head \<open>"1"\<close> and the
  unit \<open>'a'\<close> the term built by the source has the value \<open>-1\<close>, the value of \<open>stoi "1a"\<close>,
  where the worded identity gives \<open>10\<cdot>1 + (-1) = 9\<close>.
\<close>

theorem mk_str_stoi_identity_counterexample:
  "eval stoi_example_valuation
     (the (snd (mk_str_stoi decimal_lib plain_seq_util
                  (SeqConcat (Const ''x'' (SeqS CharS)) (SeqUnit (Const ''c'' CharS)))))) = VInt (- 1)
   \<and> stoi_identity_spec
        (eval stoi_example_valuation (Const ''x'' (SeqS CharS)) = VSeq [])
        (stoi_value (the_seq (eval stoi_example_valuation (Const ''x'' (SeqS CharS)))))
        (stoi_value (the_seq (eval stoi_example_valuation (SeqUnit (Const ''c'' CharS))))) = 9"
  by (simp add: plain_seq_util_def stoi_example_valuation_def mk_str_stoi_concat_def mk_is_empty_def
      stoi_identity_spec_def stoi_value_def is_digit_def dec_value_def digit_of_def Let_def)

section \<open>Properties of the word-equation reducer\<close>

lemma digit_char_table:
  "list_all (\<lambda>d. is_digit (digit_char d) \<and> digit_of (digit_char d) = int d) [0..<10]"
  by code_simp

lemma digit_char_ok:
  assumes "d < 10"
  shows "is_digit (digit_char d)" and "digit_of (digit_char d) = int d"
proof -
  from assms have "d \<in> set [0..<10]" by simp
  with digit_char_table have "is_digit (digit_char d) \<and> digit_of (digit_char d) = int d"
    unfolding list_all_iff by blast
  then show "is_digit (digit_char d)" and "digit_of (digit_char d) = int d" by simp_all
qed

lemma string_of_nat_digits: "list_all is_digit (string_of_nat k)"
proof (induction k rule: string_of_nat.induct)
  case (1 n)
  show ?case
  proof (cases "n < 10")
    case True
    then show ?thesis by (subst string_of_nat.simps) (simp add: digit_char_ok)
  next
    case False
    then have "list_all is_digit (string_of_nat (n div 10))" using 1 by simp
    moreover have "is_digit (digit_char (n mod 10))" by (rule digit_char_ok) simp
    ultimately show ?thesis using False by (subst string_of_nat.simps) simp
  qed
qed

lemma string_of_nat_nonempty: "string_of_nat k \<noteq> []"
  by (subst string_of_nat.simps) simp

lemma dec_value_string_of_nat: "dec_value (string_of_nat k) = int k"
proof (induction k rule: string_of_nat.induct)
  case (1 n)
  show ?case
  proof (cases "n < 10")
    case True
    then show ?thesis
      by (subst string_of_nat.simps) (simp add: dec_value_def digit_char_ok)
  next
    case False
    then have ih: "dec_value (string_of_nat (n div 10)) = int (n div 10)" using 1 by simp
    have d: "n mod 10 < 10" by simp
    have "dec_value (string_of_nat n) = 10 * dec_value (string_of_nat (n div 10)) + int (n mod 10)"
      using False
      by (subst string_of_nat.simps) (simp add: dec_value_snoc digit_char_ok [OF d])
    with ih show ?thesis by (simp add: zdiv_int zmod_int)
  qed
qed

lemma minus_not_digit: "\<not> is_digit (CHR ''-'')"
  by (simp add: is_digit_def)

lemma decimal_lib_parse: "rational_of_string decimal_lib (string_of_nat k) = int k"
proof (cases "string_of_nat k")
  case Nil
  then show ?thesis using string_of_nat_nonempty by simp
next
  case (Cons c cs)
  with string_of_nat_digits [of k] have "is_digit c" by simp
  with minus_not_digit have "c \<noteq> CHR ''-''" by auto
  with Cons dec_value_string_of_nat [of k] show ?thesis
    by (simp add: decimal_lib_def)
qed

lemma decimal_lib_print: "rational_to_string decimal_lib (int k) = string_of_nat k"
  by (simp add: decimal_lib_def)

lemma string_of_nat_small:
  "string_of_nat 0 = ''0''" "string_of_nat 4 = ''4''" "string_of_nat 5 = ''5''"
  "string_of_nat 42 = ''42''"
  by code_simp+

lemma itos_value_digits: "list_all is_digit (itos_value i)"
  by (simp add: itos_value_def string_of_nat_digits)

text \<open>
  C5, as amended. When the whole left side is \<open>itos(n)\<close> and the right side is fully
  concrete: if the literal is the decimal form of a non-negative integer \<open>k\<close>, the step
  equates \<open>n\<close> with \<open>k\<close> and clears both sides; the step never reports the equation
  unsatisfiable, whatever the literal; and a literal that is not the printed form of the
  numeral parsed from it leaves the equation as it is.
\<close>

theorem reduce_itos_cases:
  "(is_string_vec rs [] = Some (string_of_nat k) \<longrightarrow>
      reduce_itos decimal_lib [SeqItos n] rs eqs = Some ([], [], eqs @ [(n, Numeral (int k))]))
   \<and> reduce_itos N ls rs eqs \<noteq> None
   \<and> (is_string_vec rs [] = Some s
        \<and> zstring_encode s \<noteq> rational_to_string N (rational_of_string N (zstring_encode s)) \<longrightarrow>
      reduce_itos N ls rs eqs = Some (ls, rs, eqs))"
  by (simp add: reduce_itos_def Let_def zstring_encode_def decimal_lib_parse decimal_lib_print)

theorem reduce_itos_cases_witness:
  "is_string_vec [SeqString ''4'', SeqUnit (CharLit (CHR ''2''))] [] = Some (string_of_nat 42)
   \<and> reduce_itos decimal_lib [SeqItos (Const ''n'' IntS)] [SeqString ''4'', SeqUnit (CharLit (CHR ''2''))] []
       = Some ([], [], [(Const ''n'' IntS, Numeral 42)])
   \<and> is_string_vec [SeqString ''4a''] [] = Some ''4a''
   \<and> zstring_encode ''4a'' \<noteq> rational_to_string decimal_lib (rational_of_string decimal_lib (zstring_encode ''4a''))
   \<and> reduce_itos decimal_lib [SeqItos (Const ''n'' IntS)] [SeqString ''4a''] []
       = Some ([SeqItos (Const ''n'' IntS)], [SeqString ''4a''], [])"
proof -
  have s42: "string_of_nat 42 = ''42''" by (rule string_of_nat_small)
  have a: "is_string_vec [SeqString ''4'', SeqUnit (CharLit (CHR ''2''))] [] = Some (string_of_nat 42)"
    by (simp add: s42)
  have b: "is_string_vec [SeqString ''4a''] [] = Some ''4a''" by simp
  have c: "zstring_encode ''4a'' \<noteq> rational_to_string decimal_lib (rational_of_string decimal_lib (zstring_encode ''4a''))"
    by (simp add: zstring_encode_def decimal_lib_def dec_value_def is_digit_def digit_of_def
        string_of_nat_small)
  from reduce_itos_cases [of "[SeqString ''4'', SeqUnit (CharLit (CHR ''2''))]" 42 "Const ''n'' IntS" "[]"
      decimal_lib "[SeqItos (Const ''n'' IntS)]" "''4a''"] a
  have 1: "reduce_itos decimal_lib [SeqItos (Const ''n'' IntS)] [SeqString ''4'', SeqUnit (CharLit (CHR ''2''))] []
       = Some ([], [], [(Const ''n'' IntS, Numeral 42)])" by simp
  from reduce_itos_cases [of "[SeqString ''4a'']" 0 "Const ''n'' IntS" "[]"
      decimal_lib "[SeqItos (Const ''n'' IntS)]" "''4a''"] b c
  have 2: "reduce_itos decimal_lib [SeqItos (Const ''n'' IntS)] [SeqString ''4a''] []
       = Some ([SeqItos (Const ''n'' IntS)], [SeqString ''4a''], [])" by simp
  from a 1 b c 2 show ?thesis by blast
qed

text \<open>
  The literal \<open>"a"\<close> is not a decimal encoding, and the reducer does not fail on
  \<open>itos(n) = "a"\<close>: it returns true and leaves the equation unchanged.
\<close>

theorem reduce_eq_itos_counterexample:
  "reduce_eq decimal_lib plain_manager plain_seq_util [SeqItos (Const ''n'' IntS)] [SeqString ''a''] []
     = Inr (Some ([SeqItos (Const ''n'' IntS)], [SeqString ''a''], [], False))"
  by (simp add: reduce_eq_def and_then_def reduce_back_def reduce_itos_def remove_empty_and_concats_def
      reduce_by_length_def reduce_subsequence_def reduce_non_overlap_def plain_manager_def
      zstring_encode_def decimal_lib_def dec_value_def is_digit_def digit_of_def Let_def
      string_of_nat_small)

text \<open>
  C1 at the equation \<open>itos(n) = "-5"\<close>. The reducer returns true and replaces the equation
  by \<open>n = -5\<close>, which the valuation \<open>n \<mapsto> -5\<close> satisfies. The valuation does not satisfy the
  original equation, and no valuation does: \<open>itos\<close> of a negative integer is the empty
  string (\<open>mk_str_itos\<close> rewrites it so), and the value of \<open>itos\<close> holds digits only.
\<close>

theorem reduce_eq_itos_negative:
  "reduce_eq decimal_lib plain_manager plain_seq_util [SeqItos (Const ''n'' IntS)] [SeqString ''-5''] []
     = Inr (Some ([], [], [(Const ''n'' IntS, Numeral (- 5))], True))
   \<and> eval itos_example_valuation (BEq (Const ''n'' IntS) (Numeral (- 5))) = VBool True
   \<and> eval itos_example_valuation (BEq (SeqItos (Const ''n'' IntS)) (SeqString ''-5'')) = VBool False
   \<and> mk_str_itos decimal_lib (Numeral (- 5)) = (BR_DONE, Some (SeqString []))"
  by (simp add: reduce_eq_def and_then_def reduce_back_def reduce_itos_def remove_empty_and_concats_def
      reduce_by_length_def reduce_subsequence_def reduce_non_overlap_def plain_manager_def
      zstring_encode_def decimal_lib_def dec_value_def is_digit_def digit_of_def Let_def
      itos_example_valuation_def itos_value_def string_of_nat_small)

theorem reduce_eq_itos_negative_witness:
  "reduce_eq decimal_lib plain_manager plain_seq_util [SeqItos (Const ''n'' IntS)] [SeqString ''-5''] []
     = Inr (Some ([], [], [(Const ''n'' IntS, Numeral (- 5))], True))"
  by (rule conjunct1 [OF reduce_eq_itos_negative])

lemma itos_never_negative_literal: "eval V (SeqItos n) \<noteq> VSeq ''-5''"
proof
  assume "eval V (SeqItos n) = VSeq ''-5''"
  then have "itos_value (the_int (eval V n)) = ''-5''" by simp
  with itos_value_digits [of "the_int (eval V n)"] have "is_digit (CHR ''-'')" by simp
  with minus_not_digit show False by simp
qed

section \<open>Properties of the automaton compiler\<close>



section \<open>Properties of sub-sequence extraction\<close>






section \<open>Properties of the if-then-else canonical form\<close>

lemma combine_ites_stores:
  assumes "combine_ites get_id (Suc n) C k a b cond = Inr (r, C')"
  shows "table_lookup C' (k, Some a, Some b, cond) = Some r"
proof -
  from assms obtain C1 where "C' = cache_insert C1 k (Some a) (Some b) cond r"
    by (auto split: sum.splits)
  then show ?thesis by (simp add: table_lookup_insert)
qed

text \<open>
  C7. No lookup in the cache hits: \<open>op_cache::find\<close> returns the null result of the entry it
  builds, for every table and every key. A call of \<open>combine_ites\<close> that returns does leave
  its result in the table under its own arguments, but a lookup of these arguments still
  misses. At \<open>re.union(ite(c, x, y), z)\<close>: the first call, from the empty cache, returns
  \<open>ite(c, x \<union> z, y \<union> z)\<close> and leaves four entries, the first of them under its own key; the
  lookup of that key in this cache misses; the second call with the same arguments is not
  answered from the cache: with fuel for one level, which a hit would not exceed, it does not
  return, and with the fuel of the first call it computes the same term again, storing the
  same four entries.
\<close>

theorem combine_ites_lookup_misses:
  "cache_find C k oa ob cond = None
   \<and> (combine_ites get_id (Suc n) C k a b cond = Inr (r, C') \<longrightarrow>
        table_lookup C' (k, Some a, Some b, cond) = Some r
        \<and> cache_find C' k (Some a) (Some b) cond = None)
   \<and> combine_ites example_id 3 (empty_cache 8) OP_RE_UNION
         (BIte (Const ''c'' BoolS) (Const ''x'' (ReS (SeqS CharS))) (Const ''y'' (ReS (SeqS CharS)))) (Const ''z'' (ReS (SeqS CharS))) None
       = Inr ((BIte (Const ''c'' BoolS) (ReUnion (Const ''x'' (ReS (SeqS CharS))) (Const ''z'' (ReS (SeqS CharS)))) (ReUnion (Const ''y'' (ReS (SeqS CharS))) (Const ''z'' (ReS (SeqS CharS))))),
              \<lparr>m_table =
           [((OP_RE_UNION, Some (BIte (Const ''c'' BoolS) (Const ''x'' (ReS (SeqS CharS))) (Const ''y'' (ReS (SeqS CharS)))),
              Some (Const ''z'' (ReS (SeqS CharS))), None),
             (BIte (Const ''c'' BoolS) (ReUnion (Const ''x'' (ReS (SeqS CharS))) (Const ''z'' (ReS (SeqS CharS)))) (ReUnion (Const ''y'' (ReS (SeqS CharS))) (Const ''z'' (ReS (SeqS CharS)))))),
            ((OP_ITE, Some (ReUnion (Const ''x'' (ReS (SeqS CharS))) (Const ''z'' (ReS (SeqS CharS)))),
              Some (ReUnion (Const ''y'' (ReS (SeqS CharS))) (Const ''z'' (ReS (SeqS CharS)))), Some (Const ''c'' BoolS)),
             (BIte (Const ''c'' BoolS) (ReUnion (Const ''x'' (ReS (SeqS CharS))) (Const ''z'' (ReS (SeqS CharS)))) (ReUnion (Const ''y'' (ReS (SeqS CharS))) (Const ''z'' (ReS (SeqS CharS)))))),
            ((OP_RE_UNION, Some (Const ''y'' (ReS (SeqS CharS))), Some (Const ''z'' (ReS (SeqS CharS))), None),
             ReUnion (Const ''y'' (ReS (SeqS CharS))) (Const ''z'' (ReS (SeqS CharS)))),
            ((OP_RE_UNION, Some (Const ''x'' (ReS (SeqS CharS))), Some (Const ''z'' (ReS (SeqS CharS))), None),
             ReUnion (Const ''x'' (ReS (SeqS CharS))) (Const ''z'' (ReS (SeqS CharS))))],
         m_max_cache_size = 8\<rparr>)
   \<and> table_lookup
         \<lparr>m_table =
           [((OP_RE_UNION, Some (BIte (Const ''c'' BoolS) (Const ''x'' (ReS (SeqS CharS))) (Const ''y'' (ReS (SeqS CharS)))),
              Some (Const ''z'' (ReS (SeqS CharS))), None),
             (BIte (Const ''c'' BoolS) (ReUnion (Const ''x'' (ReS (SeqS CharS))) (Const ''z'' (ReS (SeqS CharS)))) (ReUnion (Const ''y'' (ReS (SeqS CharS))) (Const ''z'' (ReS (SeqS CharS)))))),
            ((OP_ITE, Some (ReUnion (Const ''x'' (ReS (SeqS CharS))) (Const ''z'' (ReS (SeqS CharS)))),
              Some (ReUnion (Const ''y'' (ReS (SeqS CharS))) (Const ''z'' (ReS (SeqS CharS)))), Some (Const ''c'' BoolS)),
             (BIte (Const ''c'' BoolS) (ReUnion (Const ''x'' (ReS (SeqS CharS))) (Const ''z'' (ReS (SeqS CharS)))) (ReUnion (Const ''y'' (ReS (SeqS CharS))) (Const ''z'' (ReS (SeqS CharS)))))),
            ((OP_RE_UNION, Some (Const ''y'' (ReS (SeqS CharS))), Some (Const ''z'' (ReS (SeqS CharS))), None),
             ReUnion (Const ''y'' (ReS (SeqS CharS))) (Const ''z'' (ReS (SeqS CharS)))),
            ((OP_RE_UNION, Some (Const ''x'' (ReS (SeqS CharS))), Some (Const ''z'' (ReS (SeqS CharS))), None),
             ReUnion (Const ''x'' (ReS (SeqS CharS))) (Const ''z'' (ReS (SeqS CharS))))],
         m_max_cache_size = 8\<rparr>
         (OP_RE_UNION, Some (BIte (Const ''c'' BoolS) (Const ''x'' (ReS (SeqS CharS))) (Const ''y'' (ReS (SeqS CharS)))), Some (Const ''z'' (ReS (SeqS CharS))), None)
       = Some (BIte (Const ''c'' BoolS) (ReUnion (Const ''x'' (ReS (SeqS CharS))) (Const ''z'' (ReS (SeqS CharS)))) (ReUnion (Const ''y'' (ReS (SeqS CharS))) (Const ''z'' (ReS (SeqS CharS)))))
   \<and> cache_find
         \<lparr>m_table =
           [((OP_RE_UNION, Some (BIte (Const ''c'' BoolS) (Const ''x'' (ReS (SeqS CharS))) (Const ''y'' (ReS (SeqS CharS)))),
              Some (Const ''z'' (ReS (SeqS CharS))), None),
             (BIte (Const ''c'' BoolS) (ReUnion (Const ''x'' (ReS (SeqS CharS))) (Const ''z'' (ReS (SeqS CharS)))) (ReUnion (Const ''y'' (ReS (SeqS CharS))) (Const ''z'' (ReS (SeqS CharS)))))),
            ((OP_ITE, Some (ReUnion (Const ''x'' (ReS (SeqS CharS))) (Const ''z'' (ReS (SeqS CharS)))),
              Some (ReUnion (Const ''y'' (ReS (SeqS CharS))) (Const ''z'' (ReS (SeqS CharS)))), Some (Const ''c'' BoolS)),
             (BIte (Const ''c'' BoolS) (ReUnion (Const ''x'' (ReS (SeqS CharS))) (Const ''z'' (ReS (SeqS CharS)))) (ReUnion (Const ''y'' (ReS (SeqS CharS))) (Const ''z'' (ReS (SeqS CharS)))))),
            ((OP_RE_UNION, Some (Const ''y'' (ReS (SeqS CharS))), Some (Const ''z'' (ReS (SeqS CharS))), None),
             ReUnion (Const ''y'' (ReS (SeqS CharS))) (Const ''z'' (ReS (SeqS CharS)))),
            ((OP_RE_UNION, Some (Const ''x'' (ReS (SeqS CharS))), Some (Const ''z'' (ReS (SeqS CharS))), None),
             ReUnion (Const ''x'' (ReS (SeqS CharS))) (Const ''z'' (ReS (SeqS CharS))))],
         m_max_cache_size = 8\<rparr>
         OP_RE_UNION (Some (BIte (Const ''c'' BoolS) (Const ''x'' (ReS (SeqS CharS))) (Const ''y'' (ReS (SeqS CharS))))) (Some (Const ''z'' (ReS (SeqS CharS)))) None
       = None
   \<and> combine_ites example_id 1
         \<lparr>m_table =
           [((OP_RE_UNION, Some (BIte (Const ''c'' BoolS) (Const ''x'' (ReS (SeqS CharS))) (Const ''y'' (ReS (SeqS CharS)))),
              Some (Const ''z'' (ReS (SeqS CharS))), None),
             (BIte (Const ''c'' BoolS) (ReUnion (Const ''x'' (ReS (SeqS CharS))) (Const ''z'' (ReS (SeqS CharS)))) (ReUnion (Const ''y'' (ReS (SeqS CharS))) (Const ''z'' (ReS (SeqS CharS)))))),
            ((OP_ITE, Some (ReUnion (Const ''x'' (ReS (SeqS CharS))) (Const ''z'' (ReS (SeqS CharS)))),
              Some (ReUnion (Const ''y'' (ReS (SeqS CharS))) (Const ''z'' (ReS (SeqS CharS)))), Some (Const ''c'' BoolS)),
             (BIte (Const ''c'' BoolS) (ReUnion (Const ''x'' (ReS (SeqS CharS))) (Const ''z'' (ReS (SeqS CharS)))) (ReUnion (Const ''y'' (ReS (SeqS CharS))) (Const ''z'' (ReS (SeqS CharS)))))),
            ((OP_RE_UNION, Some (Const ''y'' (ReS (SeqS CharS))), Some (Const ''z'' (ReS (SeqS CharS))), None),
             ReUnion (Const ''y'' (ReS (SeqS CharS))) (Const ''z'' (ReS (SeqS CharS)))),
            ((OP_RE_UNION, Some (Const ''x'' (ReS (SeqS CharS))), Some (Const ''z'' (ReS (SeqS CharS))), None),
             ReUnion (Const ''x'' (ReS (SeqS CharS))) (Const ''z'' (ReS (SeqS CharS))))],
         m_max_cache_size = 8\<rparr>
         OP_RE_UNION (BIte (Const ''c'' BoolS) (Const ''x'' (ReS (SeqS CharS))) (Const ''y'' (ReS (SeqS CharS)))) (Const ''z'' (ReS (SeqS CharS))) None
       = Inl OutOfFuel
   \<and> combine_ites example_id 3
         \<lparr>m_table =
           [((OP_RE_UNION, Some (BIte (Const ''c'' BoolS) (Const ''x'' (ReS (SeqS CharS))) (Const ''y'' (ReS (SeqS CharS)))),
              Some (Const ''z'' (ReS (SeqS CharS))), None),
             (BIte (Const ''c'' BoolS) (ReUnion (Const ''x'' (ReS (SeqS CharS))) (Const ''z'' (ReS (SeqS CharS)))) (ReUnion (Const ''y'' (ReS (SeqS CharS))) (Const ''z'' (ReS (SeqS CharS)))))),
            ((OP_ITE, Some (ReUnion (Const ''x'' (ReS (SeqS CharS))) (Const ''z'' (ReS (SeqS CharS)))),
              Some (ReUnion (Const ''y'' (ReS (SeqS CharS))) (Const ''z'' (ReS (SeqS CharS)))), Some (Const ''c'' BoolS)),
             (BIte (Const ''c'' BoolS) (ReUnion (Const ''x'' (ReS (SeqS CharS))) (Const ''z'' (ReS (SeqS CharS)))) (ReUnion (Const ''y'' (ReS (SeqS CharS))) (Const ''z'' (ReS (SeqS CharS)))))),
            ((OP_RE_UNION, Some (Const ''y'' (ReS (SeqS CharS))), Some (Const ''z'' (ReS (SeqS CharS))), None),
             ReUnion (Const ''y'' (ReS (SeqS CharS))) (Const ''z'' (ReS (SeqS CharS)))),
            ((OP_RE_UNION, Some (Const ''x'' (ReS (SeqS CharS))), Some (Const ''z'' (ReS (SeqS CharS))), None),
             ReUnion (Const ''x'' (ReS (SeqS CharS))) (Const ''z'' (ReS (SeqS CharS))))],
         m_max_cache_size = 8\<rparr>
         OP_RE_UNION (BIte (Const ''c'' BoolS) (Const ''x'' (ReS (SeqS CharS))) (Const ''y'' (ReS (SeqS CharS)))) (Const ''z'' (ReS (SeqS CharS))) None
       = Inr ((BIte (Const ''c'' BoolS) (ReUnion (Const ''x'' (ReS (SeqS CharS))) (Const ''z'' (ReS (SeqS CharS)))) (ReUnion (Const ''y'' (ReS (SeqS CharS))) (Const ''z'' (ReS (SeqS CharS))))),
              \<lparr>m_table =
           [((OP_RE_UNION, Some (BIte (Const ''c'' BoolS) (Const ''x'' (ReS (SeqS CharS))) (Const ''y'' (ReS (SeqS CharS)))),
              Some (Const ''z'' (ReS (SeqS CharS))), None),
             (BIte (Const ''c'' BoolS) (ReUnion (Const ''x'' (ReS (SeqS CharS))) (Const ''z'' (ReS (SeqS CharS)))) (ReUnion (Const ''y'' (ReS (SeqS CharS))) (Const ''z'' (ReS (SeqS CharS)))))),
            ((OP_ITE, Some (ReUnion (Const ''x'' (ReS (SeqS CharS))) (Const ''z'' (ReS (SeqS CharS)))),
              Some (ReUnion (Const ''y'' (ReS (SeqS CharS))) (Const ''z'' (ReS (SeqS CharS)))), Some (Const ''c'' BoolS)),
             (BIte (Const ''c'' BoolS) (ReUnion (Const ''x'' (ReS (SeqS CharS))) (Const ''z'' (ReS (SeqS CharS)))) (ReUnion (Const ''y'' (ReS (SeqS CharS))) (Const ''z'' (ReS (SeqS CharS)))))),
            ((OP_RE_UNION, Some (Const ''y'' (ReS (SeqS CharS))), Some (Const ''z'' (ReS (SeqS CharS))), None),
             ReUnion (Const ''y'' (ReS (SeqS CharS))) (Const ''z'' (ReS (SeqS CharS)))),
            ((OP_RE_UNION, Some (Const ''x'' (ReS (SeqS CharS))), Some (Const ''z'' (ReS (SeqS CharS))), None),
             ReUnion (Const ''x'' (ReS (SeqS CharS))) (Const ''z'' (ReS (SeqS CharS))))],
         m_max_cache_size = 8\<rparr>)"
proof (intro conjI impI)
  show "cache_find C k oa ob cond = None" by (simp add: cache_find_def)
next
  assume "combine_ites get_id (Suc n) C k a b cond = Inr (r, C')"
  then show "table_lookup C' (k, Some a, Some b, cond) = Some r" by (rule combine_ites_stores)
next
  show "cache_find C' k (Some a) (Some b) cond = None" by (simp add: cache_find_def)
qed (simp_all add: numeral_3_eq_3 combine_plan_def cache_find_def table_lookup_def cache_insert_def
      cache_cleanup_def empty_cache_def Let_def)

theorem combine_ites_lookup_misses_witness:
  "combine_ites example_id (Suc 2) (empty_cache 8) OP_RE_UNION
       (BIte (Const ''c'' BoolS) (Const ''x'' (ReS (SeqS CharS))) (Const ''y'' (ReS (SeqS CharS)))) (Const ''z'' (ReS (SeqS CharS))) None
     = Inr ((BIte (Const ''c'' BoolS) (ReUnion (Const ''x'' (ReS (SeqS CharS))) (Const ''z'' (ReS (SeqS CharS)))) (ReUnion (Const ''y'' (ReS (SeqS CharS))) (Const ''z'' (ReS (SeqS CharS))))),
            \<lparr>m_table =
           [((OP_RE_UNION, Some (BIte (Const ''c'' BoolS) (Const ''x'' (ReS (SeqS CharS))) (Const ''y'' (ReS (SeqS CharS)))),
              Some (Const ''z'' (ReS (SeqS CharS))), None),
             (BIte (Const ''c'' BoolS) (ReUnion (Const ''x'' (ReS (SeqS CharS))) (Const ''z'' (ReS (SeqS CharS)))) (ReUnion (Const ''y'' (ReS (SeqS CharS))) (Const ''z'' (ReS (SeqS CharS)))))),
            ((OP_ITE, Some (ReUnion (Const ''x'' (ReS (SeqS CharS))) (Const ''z'' (ReS (SeqS CharS)))),
              Some (ReUnion (Const ''y'' (ReS (SeqS CharS))) (Const ''z'' (ReS (SeqS CharS)))), Some (Const ''c'' BoolS)),
             (BIte (Const ''c'' BoolS) (ReUnion (Const ''x'' (ReS (SeqS CharS))) (Const ''z'' (ReS (SeqS CharS)))) (ReUnion (Const ''y'' (ReS (SeqS CharS))) (Const ''z'' (ReS (SeqS CharS)))))),
            ((OP_RE_UNION, Some (Const ''y'' (ReS (SeqS CharS))), Some (Const ''z'' (ReS (SeqS CharS))), None),
             ReUnion (Const ''y'' (ReS (SeqS CharS))) (Const ''z'' (ReS (SeqS CharS)))),
            ((OP_RE_UNION, Some (Const ''x'' (ReS (SeqS CharS))), Some (Const ''z'' (ReS (SeqS CharS))), None),
             ReUnion (Const ''x'' (ReS (SeqS CharS))) (Const ''z'' (ReS (SeqS CharS))))],
         m_max_cache_size = 8\<rparr>)
   \<and> table_lookup
         \<lparr>m_table =
           [((OP_RE_UNION, Some (BIte (Const ''c'' BoolS) (Const ''x'' (ReS (SeqS CharS))) (Const ''y'' (ReS (SeqS CharS)))),
              Some (Const ''z'' (ReS (SeqS CharS))), None),
             (BIte (Const ''c'' BoolS) (ReUnion (Const ''x'' (ReS (SeqS CharS))) (Const ''z'' (ReS (SeqS CharS)))) (ReUnion (Const ''y'' (ReS (SeqS CharS))) (Const ''z'' (ReS (SeqS CharS)))))),
            ((OP_ITE, Some (ReUnion (Const ''x'' (ReS (SeqS CharS))) (Const ''z'' (ReS (SeqS CharS)))),
              Some (ReUnion (Const ''y'' (ReS (SeqS CharS))) (Const ''z'' (ReS (SeqS CharS)))), Some (Const ''c'' BoolS)),
             (BIte (Const ''c'' BoolS) (ReUnion (Const ''x'' (ReS (SeqS CharS))) (Const ''z'' (ReS (SeqS CharS)))) (ReUnion (Const ''y'' (ReS (SeqS CharS))) (Const ''z'' (ReS (SeqS CharS)))))),
            ((OP_RE_UNION, Some (Const ''y'' (ReS (SeqS CharS))), Some (Const ''z'' (ReS (SeqS CharS))), None),
             ReUnion (Const ''y'' (ReS (SeqS CharS))) (Const ''z'' (ReS (SeqS CharS)))),
            ((OP_RE_UNION, Some (Const ''x'' (ReS (SeqS CharS))), Some (Const ''z'' (ReS (SeqS CharS))), None),
             ReUnion (Const ''x'' (ReS (SeqS CharS))) (Const ''z'' (ReS (SeqS CharS))))],
         m_max_cache_size = 8\<rparr>
         (OP_RE_UNION, Some (BIte (Const ''c'' BoolS) (Const ''x'' (ReS (SeqS CharS))) (Const ''y'' (ReS (SeqS CharS)))), Some (Const ''z'' (ReS (SeqS CharS))), None)
       = Some (BIte (Const ''c'' BoolS) (ReUnion (Const ''x'' (ReS (SeqS CharS))) (Const ''z'' (ReS (SeqS CharS)))) (ReUnion (Const ''y'' (ReS (SeqS CharS))) (Const ''z'' (ReS (SeqS CharS)))))
   \<and> cache_find
         \<lparr>m_table =
           [((OP_RE_UNION, Some (BIte (Const ''c'' BoolS) (Const ''x'' (ReS (SeqS CharS))) (Const ''y'' (ReS (SeqS CharS)))),
              Some (Const ''z'' (ReS (SeqS CharS))), None),
             (BIte (Const ''c'' BoolS) (ReUnion (Const ''x'' (ReS (SeqS CharS))) (Const ''z'' (ReS (SeqS CharS)))) (ReUnion (Const ''y'' (ReS (SeqS CharS))) (Const ''z'' (ReS (SeqS CharS)))))),
            ((OP_ITE, Some (ReUnion (Const ''x'' (ReS (SeqS CharS))) (Const ''z'' (ReS (SeqS CharS)))),
              Some (ReUnion (Const ''y'' (ReS (SeqS CharS))) (Const ''z'' (ReS (SeqS CharS)))), Some (Const ''c'' BoolS)),
             (BIte (Const ''c'' BoolS) (ReUnion (Const ''x'' (ReS (SeqS CharS))) (Const ''z'' (ReS (SeqS CharS)))) (ReUnion (Const ''y'' (ReS (SeqS CharS))) (Const ''z'' (ReS (SeqS CharS)))))),
            ((OP_RE_UNION, Some (Const ''y'' (ReS (SeqS CharS))), Some (Const ''z'' (ReS (SeqS CharS))), None),
             ReUnion (Const ''y'' (ReS (SeqS CharS))) (Const ''z'' (ReS (SeqS CharS)))),
            ((OP_RE_UNION, Some (Const ''x'' (ReS (SeqS CharS))), Some (Const ''z'' (ReS (SeqS CharS))), None),
             ReUnion (Const ''x'' (ReS (SeqS CharS))) (Const ''z'' (ReS (SeqS CharS))))],
         m_max_cache_size = 8\<rparr>
         OP_RE_UNION (Some (BIte (Const ''c'' BoolS) (Const ''x'' (ReS (SeqS CharS))) (Const ''y'' (ReS (SeqS CharS))))) (Some (Const ''z'' (ReS (SeqS CharS)))) None
       = None"
proof -
  let ?a = "BIte (Const ''c'' BoolS) (Const ''x'' (ReS (SeqS CharS))) (Const ''y'' (ReS (SeqS CharS)))"
  let ?b = "Const ''z'' (ReS (SeqS CharS))"
  let ?r = "BIte (Const ''c'' BoolS) (ReUnion (Const ''x'' (ReS (SeqS CharS))) (Const ''z'' (ReS (SeqS CharS)))) (ReUnion (Const ''y'' (ReS (SeqS CharS))) (Const ''z'' (ReS (SeqS CharS))))"
  let ?C0 = "\<lparr>m_table =
           [((OP_RE_UNION, Some (BIte (Const ''c'' BoolS) (Const ''x'' (ReS (SeqS CharS))) (Const ''y'' (ReS (SeqS CharS)))),
              Some (Const ''z'' (ReS (SeqS CharS))), None),
             (BIte (Const ''c'' BoolS) (ReUnion (Const ''x'' (ReS (SeqS CharS))) (Const ''z'' (ReS (SeqS CharS)))) (ReUnion (Const ''y'' (ReS (SeqS CharS))) (Const ''z'' (ReS (SeqS CharS)))))),
            ((OP_ITE, Some (ReUnion (Const ''x'' (ReS (SeqS CharS))) (Const ''z'' (ReS (SeqS CharS)))),
              Some (ReUnion (Const ''y'' (ReS (SeqS CharS))) (Const ''z'' (ReS (SeqS CharS)))), Some (Const ''c'' BoolS)),
             (BIte (Const ''c'' BoolS) (ReUnion (Const ''x'' (ReS (SeqS CharS))) (Const ''z'' (ReS (SeqS CharS)))) (ReUnion (Const ''y'' (ReS (SeqS CharS))) (Const ''z'' (ReS (SeqS CharS)))))),
            ((OP_RE_UNION, Some (Const ''y'' (ReS (SeqS CharS))), Some (Const ''z'' (ReS (SeqS CharS))), None),
             ReUnion (Const ''y'' (ReS (SeqS CharS))) (Const ''z'' (ReS (SeqS CharS)))),
            ((OP_RE_UNION, Some (Const ''x'' (ReS (SeqS CharS))), Some (Const ''z'' (ReS (SeqS CharS))), None),
             ReUnion (Const ''x'' (ReS (SeqS CharS))) (Const ''z'' (ReS (SeqS CharS))))],
         m_max_cache_size = 8\<rparr>"
  have run: "combine_ites example_id (Suc 2) (empty_cache 8) OP_RE_UNION ?a ?b None = Inr (?r, ?C0)"
    by (simp add: numeral_2_eq_2 combine_plan_def cache_find_def cache_insert_def
        cache_cleanup_def empty_cache_def Let_def)
  from combine_ites_lookup_misses [where get_id = example_id and n = 2 and C = "empty_cache 8"
      and k = OP_RE_UNION and a = ?a and b = ?b and cond = None and r = ?r and C' = ?C0] run
  have "table_lookup ?C0 (OP_RE_UNION, Some ?a, Some ?b, None) = Some ?r
        \<and> cache_find ?C0 OP_RE_UNION (Some ?a) (Some ?b) None = None"
    by blast
  with run show ?thesis by blast
qed

text \<open>
  C2 at the term \<open>(ite(c, a, b) \<cdot> d) \<cdot> e\<close>. \<open>lift_ites\<close> lifts the inner concatenation to
  \<open>ite(c, a\<cdot>d, b\<cdot>d)\<close>, drops that result, and combines the operands as they were: the
  term comes back unchanged, with the if-then-else below two concatenations, which is not
  BDD form. Combining the lifted operand instead gives \<open>ite(c, (a\<cdot>d)\<cdot>e, (b\<cdot>d)\<cdot>e)\<close>, which
  is.
\<close>

theorem lift_ites_drops_results:
  "map_sum id fst
     (lift_ites example_id 3 (empty_cache 8)
        (ReConcat (ReConcat (BIte (Const ''c'' BoolS) (Const ''a'' (ReS (SeqS CharS))) (Const ''b'' (ReS (SeqS CharS))))
                     (Const ''d'' (ReS (SeqS CharS))))
           (Const ''e'' (ReS (SeqS CharS)))) True True)
     = Inr (ReConcat (ReConcat (BIte (Const ''c'' BoolS) (Const ''a'' (ReS (SeqS CharS))) (Const ''b'' (ReS (SeqS CharS))))
                        (Const ''d'' (ReS (SeqS CharS))))
              (Const ''e'' (ReS (SeqS CharS))))
   \<and> \<not> is_bdd_form example_id
         (ReConcat (ReConcat (BIte (Const ''c'' BoolS) (Const ''a'' (ReS (SeqS CharS))) (Const ''b'' (ReS (SeqS CharS))))
                      (Const ''d'' (ReS (SeqS CharS))))
            (Const ''e'' (ReS (SeqS CharS))))
   \<and> map_sum id fst
       (lift_ites example_id 3 (empty_cache 8)
          (ReConcat (BIte (Const ''c'' BoolS) (Const ''a'' (ReS (SeqS CharS))) (Const ''b'' (ReS (SeqS CharS))))
             (Const ''d'' (ReS (SeqS CharS)))) True True)
       = Inr (BIte (Const ''c'' BoolS)
                (ReConcat (Const ''a'' (ReS (SeqS CharS))) (Const ''d'' (ReS (SeqS CharS))))
                (ReConcat (Const ''b'' (ReS (SeqS CharS))) (Const ''d'' (ReS (SeqS CharS)))))
   \<and> map_sum id fst
       (combine_ites example_id 3 (empty_cache 8) OP_RE_CONCAT
          (BIte (Const ''c'' BoolS)
             (ReConcat (Const ''a'' (ReS (SeqS CharS))) (Const ''d'' (ReS (SeqS CharS))))
             (ReConcat (Const ''b'' (ReS (SeqS CharS))) (Const ''d'' (ReS (SeqS CharS)))))
          (Const ''e'' (ReS (SeqS CharS))) None)
       = Inr (BIte (Const ''c'' BoolS)
                (ReConcat (ReConcat (Const ''a'' (ReS (SeqS CharS))) (Const ''d'' (ReS (SeqS CharS))))
                   (Const ''e'' (ReS (SeqS CharS))))
                (ReConcat (ReConcat (Const ''b'' (ReS (SeqS CharS))) (Const ''d'' (ReS (SeqS CharS))))
                   (Const ''e'' (ReS (SeqS CharS)))))
   \<and> is_bdd_form example_id
         (BIte (Const ''c'' BoolS)
            (ReConcat (ReConcat (Const ''a'' (ReS (SeqS CharS))) (Const ''d'' (ReS (SeqS CharS))))
               (Const ''e'' (ReS (SeqS CharS))))
            (ReConcat (ReConcat (Const ''b'' (ReS (SeqS CharS))) (Const ''d'' (ReS (SeqS CharS))))
               (Const ''e'' (ReS (SeqS CharS)))))"
  by code_simp

theorem lift_ites_drops_results_witness:
  "\<not> is_bdd_form example_id
       (ReConcat (ReConcat (BIte (Const ''c'' BoolS) (Const ''a'' (ReS (SeqS CharS))) (Const ''b'' (ReS (SeqS CharS))))
                    (Const ''d'' (ReS (SeqS CharS))))
          (Const ''e'' (ReS (SeqS CharS))))"
  by (rule conjunct1 [OF conjunct2 [OF lift_ites_drops_results]])

end
